theory Spec2Isabelle
  imports Complex_Main
begin

section \<open>Subtitle repositioning front end\<close>

text \<open>
  The repository is a React front end in two variants of \<^verbatim>\<open>App.js\<close>: the preview
  application (upload panel, video preview with cue overlay, actions
  \<^verbatim>\<open>callRepositionAPI\<close> and \<^verbatim>\<open>downloadRepositionedSRT\<close>) and the upload-form
  application (\<^verbatim>\<open>handleSubmit\<close>, \<^verbatim>\<open>cancelUpload\<close>, \<^verbatim>\<open>simulateProgress\<close>).
  Both are embedded here. Component state is a record; every \<^verbatim>\<open>setX\<close> of the source
  is a record update; an \<^verbatim>\<open>async\<close> handler is a function of the state and of what the
  browser hands back at each \<^verbatim>\<open>await\<close> (a settled promise). The requests issued and
  the values assigned to the status and to the progress are appended to history fields
  of the state, so that statements about "every request" or "every status" can be made.

  JavaScript numbers are modelled as exact reals: the rounding of IEEE doubles is not
  part of the model. Names of the upload-form variant that clash with the preview
  variant carry the suffix \<open>_u\<close>.
\<close>

subsection \<open>JavaScript primitives\<close>

definition digit_of :: "nat \<Rightarrow> char" where
  "digit_of n = ''0123456789'' ! n"

text \<open>\<^verbatim>\<open>n.toString()\<close> of a non-negative integer: its decimal digits.\<close>

fun toString_nat :: "nat \<Rightarrow> string" where
  "toString_nat n =
     (if n < 10 then [digit_of n] else toString_nat (n div 10) @ [digit_of (n mod 10)])"

declare toString_nat.simps [simp del]






text \<open>\<^verbatim>\<open>Math.round\<close>: to the nearest integer, halves upwards.\<close>

definition js_round :: "real \<Rightarrow> int" where
  "js_round x = \<lfloor>x + 1 / 2\<rfloor>"

text \<open>\<^verbatim>\<open>s.toLowerCase()\<close>, on the letters A to Z.\<close>

definition toLowerCase_char :: "char \<Rightarrow> char" where
  "toLowerCase_char c =
     (case map_of (zip ''ABCDEFGHIJKLMNOPQRSTUVWXYZ'' ''abcdefghijklmnopqrstuvwxyz'') c of
        Some l \<Rightarrow> l
      | None \<Rightarrow> c)"

definition toLowerCase :: "string \<Rightarrow> string" where
  "toLowerCase s = map toLowerCase_char s"

definition endsWith :: "string \<Rightarrow> string \<Rightarrow> bool" where
  "endsWith s suffix =
     (length suffix \<le> length s \<and> drop (length s - length suffix) s = suffix)"

text \<open>\<^verbatim>\<open>u.replace(/\/+$/, '')\<close>: drops the slashes at the end.\<close>

definition stripTrailingSlashes :: "string \<Rightarrow> string" where
  "stripTrailingSlashes u = rev (dropWhile (\<lambda>c. c = CHR ''/'') (rev u))"

text \<open>\<^verbatim>\<open>name.replace(/\.[^.]+$/, '')\<close>: drops a last extension of at least one character.\<close>

definition stripExtension :: "string \<Rightarrow> string" where
  "stripExtension name =
     (let ext = takeWhile (\<lambda>c. c \<noteq> CHR ''.'') (rev name)
      in if ext \<noteq> [] \<and> length ext < length name
         then take (length name - length ext - 1) name else name)"

text \<open>
  The values a cue's position hint can take in the parsed JSON; \<open>JUndefined\<close> is a
  missing field.
\<close>

datatype jsvalue = JUndefined | JNull | JBool bool | JNumber real | JString string

subsection \<open>formatTime\<close>




subsection \<open>Cues and their overlay\<close>

text \<open>
  A cue as the backend returns it: \<^verbatim>\<open>{start, end, text, position}\<close>, with numeric
  times and a textual content. The position hint is kept as a JavaScript value.
\<close>

record cue =
  cue_start :: real
  cue_end :: real
  cue_text :: string
  cue_position :: jsvalue

type_synonym style = "(string \<times> string) list"

definition overlay_base :: style where
  "overlay_base =
     [(''position'', ''absolute''), (''left'', ''50%''), (''transform'', ''translateX(-50%)''),
      (''maxWidth'', ''80%''), (''color'', ''#fff''), (''background'', ''rgba(0,0,0,0.55)''),
      (''padding'', ''6px 10px''), (''borderRadius'', ''6''), (''fontSize'', ''16''),
      (''lineHeight'', ''1.35''), (''textAlign'', ''center''),
      (''boxShadow'', ''0 2px 8px rgba(0,0,0,0.25)''),
      (''border'', ''1px solid rgba(255,255,255,0.25)'')]"

definition overlayPositionStyle :: "jsvalue \<Rightarrow> style" where
  "overlayPositionStyle position =
     (if position = JString ''top'' then overlay_base @ [(''top'', ''6%'')]
      else overlay_base @ [(''bottom'', ''6%'')])"

definition activeCues :: "cue list \<Rightarrow> real \<Rightarrow> cue list" where
  "activeCues cs currentTime' =
     (if cs = [] then []
      else filter (\<lambda>c. currentTime' \<ge> cue_start c \<and> currentTime' \<le> cue_end c) cs)"



subsection \<open>Files, requests and responses\<close>

record jsfile =
  file_name :: string
  file_type :: string
  file_content :: string

datatype form_value = FileValue jsfile | StringValue string

text \<open>\<^verbatim>\<open>formData.append(key, file)\<close>; a null value is appended as the string "null".\<close>

definition form_file :: "jsfile option \<Rightarrow> form_value" where
  "form_file f = (case f of None \<Rightarrow> StringValue ''null'' | Some x \<Rightarrow> FileValue x)"

text \<open>
  The body of a \<^verbatim>\<open>fetch\<close>: a \<^verbatim>\<open>FormData\<close> object is sent as multipart form data.
\<close>

datatype body_init = NoBody | StringBody string | FormDataBody "(string \<times> form_value) list"

record request =
  req_url :: string
  req_method :: string
  req_body :: body_init
  req_signal :: bool

record js_error =
  err_name :: string
  err_message :: string

datatype 'a settled = Rejected js_error | Fulfilled 'a

text \<open>
  What \<^verbatim>\<open>resp.json()\<close> yields, as far as the code looks: an object whose \<^verbatim>\<open>cues\<close> is an
  array, or anything else.
\<close>

datatype json_payload = OtherJson | CuesJson "cue list"

record response =
  resp_ok :: bool
  resp_status :: nat
  resp_text :: "string settled"
  resp_json :: "json_payload settled"
  resp_blob :: "string settled"

definition new_Error :: "string \<Rightarrow> js_error" where
  "new_Error msg = \<lparr>err_name = ''Error'', err_message = msg\<rparr>"

definition abortError :: js_error where
  "abortError = \<lparr>err_name = ''AbortError'', err_message = ''The user aborted a request.''\<rparr>"

subsection \<open>The preview application: state\<close>

record app_state =
  theme :: string
  videoFile :: "jsfile option"
  subtitleFile :: "jsfile option"
  status :: string
  progress :: int
  error :: string
  cues :: "cue list"
  isProcessing :: bool
  includePositionHint :: bool
  backendBaseUrl :: string
  currentTime :: real
  requests :: "request list"
  statusLog :: "string list"
  progressLog :: "int list"
  downloads :: "(string \<times> string) list"

text \<open>
  The state after mounting: the initial values of the \<^verbatim>\<open>useState\<close> calls, and the
  backend base URL as the mount effect sets it from \<^verbatim>\<open>REACT_APP_BACKEND_URL\<close> or,
  failing that, from the protocol and host name of \<^verbatim>\<open>window.location\<close> (\<open>None\<close> when
  reading it throws).
\<close>

definition locationBaseUrl :: "(string \<times> string) option \<Rightarrow> string" where
  "locationBaseUrl loc =
     (case loc of Some (proto, host) \<Rightarrow> proto @ ''//'' @ host @ '':3001'' | None \<Rightarrow> [])"

definition initial_state :: "string option \<Rightarrow> (string \<times> string) option \<Rightarrow> app_state" where
  "initial_state envUrl loc =
     \<lparr>theme = ''light'', videoFile = None, subtitleFile = None, status = ''Idle'',
      progress = 0, error = [], cues = [], isProcessing = False,
      includePositionHint = True,
      backendBaseUrl =
        (case envUrl of
           Some u \<Rightarrow> if u \<noteq> [] then stripTrailingSlashes u else locationBaseUrl loc
         | None \<Rightarrow> locationBaseUrl loc),
      currentTime = 0, requests = [], statusLog = [''Idle''], progressLog = [0],
      downloads = []\<rparr>"

definition setStatus :: "string \<Rightarrow> app_state \<Rightarrow> app_state" where
  "setStatus v st = st\<lparr>status := v, statusLog := statusLog st @ [v]\<rparr>"

definition setProgress :: "int \<Rightarrow> app_state \<Rightarrow> app_state" where
  "setProgress v st = st\<lparr>progress := v, progressLog := progressLog st @ [v]\<rparr>"

definition setError :: "string \<Rightarrow> app_state \<Rightarrow> app_state" where
  "setError v st = st\<lparr>error := v\<rparr>"

definition fetch :: "request \<Rightarrow> app_state \<Rightarrow> app_state" where
  "fetch r st = st\<lparr>requests := requests st @ [r]\<rparr>"

definition onTimeUpdate :: "real option \<Rightarrow> app_state \<Rightarrow> app_state" where
  "onTimeUpdate video st =
     (case video of None \<Rightarrow> st | Some t \<Rightarrow> st\<lparr>currentTime := t\<rparr>)"


definition handleVideoChange :: "jsfile option \<Rightarrow> app_state \<Rightarrow> app_state" where
  "handleVideoChange f st = st\<lparr>videoFile := f\<rparr>"

definition handleSubChange :: "jsfile option \<Rightarrow> app_state \<Rightarrow> app_state" where
  "handleSubChange f st = st\<lparr>subtitleFile := f\<rparr>"

definition toggleTheme :: "app_state \<Rightarrow> app_state" where
  "toggleTheme st = st\<lparr>theme := (if theme st = ''light'' then ''dark'' else ''light'')\<rparr>"

definition resetState :: "app_state \<Rightarrow> app_state" where
  "resetState st = setError [] (setProgress 0 (setStatus ''Idle'' (st\<lparr>cues := []\<rparr>)))"

text \<open>\<open>validateInputs\<close> returns its verdict and the state with the error text set.\<close>

definition validateInputs :: "app_state \<Rightarrow> bool \<times> app_state" where
  "validateInputs st =
     (if videoFile st = None then (False, setError ''Please select a video file.'' st)
      else if subtitleFile st = None
      then (False, setError ''Please select a subtitle file (SRT).'' st)
      else (True, setError [] st))"

subsection \<open>The preview application: callRepositionAPI\<close>

definition callRepositionAPI_catch :: "js_error \<Rightarrow> app_state \<Rightarrow> app_state" where
  "callRepositionAPI_catch e st =
     (setStatus ''Error''
        (setError (if err_message e \<noteq> [] then err_message e else ''Failed to process files.'')
           st))\<lparr>isProcessing := False\<rparr>"

definition callRepositionAPI :: "app_state \<Rightarrow> response settled \<Rightarrow> app_state" where
  "callRepositionAPI st0 fetched =
     (case validateInputs st0 of
        (False, st) \<Rightarrow> st
      | (True, st) \<Rightarrow>
          if backendBaseUrl st = [] then setError ''Backend URL is not configured.'' st
          else
            let st1 = setProgress 10 (setStatus ''Uploading...'' (st\<lparr>isProcessing := True\<rparr>));
                formData = [(''video'', form_file (videoFile st1)),
                            (''subtitles_file'', form_file (subtitleFile st1))];
                st2 = fetch \<lparr>req_url = backendBaseUrl st1 @ ''/reposition/subtitles'',
                             req_method = ''POST'', req_body = FormDataBody formData,
                             req_signal = False\<rparr> st1
            in case fetched of
                 Rejected e \<Rightarrow> callRepositionAPI_catch e st2
               | Fulfilled resp \<Rightarrow>
                   let st3 = setProgress 50 (setStatus ''Processing...'' st2)
                   in if \<not> resp_ok resp then
                        (case resp_text resp of
                           Rejected e \<Rightarrow> callRepositionAPI_catch e st3
                         | Fulfilled text' \<Rightarrow>
                             callRepositionAPI_catch
                               (new_Error (''Backend error ('' @ toString_nat (resp_status resp)
                                           @ ''): '' @ text')) st3)
                      else
                        (case resp_json resp of
                           Rejected e \<Rightarrow> callRepositionAPI_catch e st3
                         | Fulfilled OtherJson \<Rightarrow>
                             callRepositionAPI_catch
                               (new_Error ''Unexpected response format from backend.'') st3
                         | Fulfilled (CuesJson cs) \<Rightarrow>
                             (setProgress 100 (setStatus ''Done'' (st3\<lparr>cues := cs\<rparr>)))
                               \<lparr>isProcessing := False\<rparr>))"

subsection \<open>The preview application: downloadRepositionedSRT\<close>

definition downloadRepositionedSRT_catch :: "js_error \<Rightarrow> app_state \<Rightarrow> app_state" where
  "downloadRepositionedSRT_catch e st =
     (setStatus ''Error''
        (setError (if err_message e \<noteq> [] then err_message e
                   else ''Failed to download repositioned subtitles.'')
           st))\<lparr>isProcessing := False\<rparr>"

definition baseName :: "jsfile option \<Rightarrow> string" where
  "baseName f =
     (case f of
        None \<Rightarrow> ''subtitles''
      | Some x \<Rightarrow> if file_name x \<noteq> [] then stripExtension (file_name x) else ''subtitles'')
     @ ''_repositioned.srt''"

definition downloadRepositionedSRT :: "app_state \<Rightarrow> response settled \<Rightarrow> app_state" where
  "downloadRepositionedSRT st0 fetched =
     (case validateInputs st0 of
        (False, st) \<Rightarrow> st
      | (True, st) \<Rightarrow>
          if backendBaseUrl st = [] then setError ''Backend URL is not configured.'' st
          else
            let st1 = setProgress 30
                        (setStatus ''Requesting download...'' (st\<lparr>isProcessing := True\<rparr>));
                formData = [(''video'', form_file (videoFile st1)),
                            (''subtitles_file'', form_file (subtitleFile st1)),
                            (''include_position_hint'',
                             StringValue (if includePositionHint st1 then ''true'' else ''false''))];
                st2 = fetch \<lparr>req_url = backendBaseUrl st1 @ ''/reposition/subtitles/download'',
                             req_method = ''POST'', req_body = FormDataBody formData,
                             req_signal = False\<rparr> st1
            in case fetched of
                 Rejected e \<Rightarrow> downloadRepositionedSRT_catch e st2
               | Fulfilled resp \<Rightarrow>
                   if \<not> resp_ok resp then
                     (case resp_text resp of
                        Rejected e \<Rightarrow> downloadRepositionedSRT_catch e st2
                      | Fulfilled text' \<Rightarrow>
                          downloadRepositionedSRT_catch
                            (new_Error (''Backend error ('' @ toString_nat (resp_status resp)
                                        @ ''): '' @ text')) st2)
                   else
                     (case resp_blob resp of
                        Rejected e \<Rightarrow> downloadRepositionedSRT_catch e st2
                      | Fulfilled blob \<Rightarrow>
                          (setProgress 100
                             (setStatus ''Downloaded''
                                (st2\<lparr>downloads :=
                                       downloads st2 @ [(baseName (subtitleFile st2), blob)]\<rparr>)))
                            \<lparr>isProcessing := False\<rparr>))"

subsection \<open>The preview application: user actions\<close>

text \<open>
  Every way the user or the browser drives the component. The two buttons are disabled
  while files are missing or a call is running; the handlers are modelled without that
  guard, so the statements below cover every invocation.
\<close>

datatype app_action =
    HandleVideoChange "jsfile option"
  | HandleSubChange "jsfile option"
  | ToggleTheme
  | ResetButton
  | SetIncludePositionHint bool
  | OnTimeUpdate "real option"
  | CallRepositionAPI "response settled"
  | DownloadRepositionedSRT "response settled"

fun step :: "app_state \<Rightarrow> app_action \<Rightarrow> app_state" where
  "step st (HandleVideoChange f) = handleVideoChange f st"
| "step st (HandleSubChange f) = handleSubChange f st"
| "step st ToggleTheme = toggleTheme st"
| "step st ResetButton = (resetState st)\<lparr>cues := []\<rparr>"
| "step st (SetIncludePositionHint b) = st\<lparr>includePositionHint := b\<rparr>"
| "step st (OnTimeUpdate v) = onTimeUpdate v st"
| "step st (CallRepositionAPI fetched) = callRepositionAPI st fetched"
| "step st (DownloadRepositionedSRT fetched) = downloadRepositionedSRT st fetched"

definition run :: "app_state \<Rightarrow> app_action list \<Rightarrow> app_state" where
  "run st acts = foldl step st acts"

subsection \<open>The upload-form application: state\<close>

text \<open>
  One interval timer of \<open>simulateProgress\<close>: the closure variables \<^verbatim>\<open>current\<close> and
  \<^verbatim>\<open>count\<close>, the constants \<^verbatim>\<open>to\<close>, \<^verbatim>\<open>increment\<close> and \<^verbatim>\<open>stepTime\<close>, and whether
  \<^verbatim>\<open>clearInterval\<close> has been called on it.
\<close>

record timer =
  tm_current :: real
  tm_count :: nat
  tm_to :: int
  tm_increment :: real
  tm_stepTime :: real
  tm_cleared :: bool

text \<open>
  \<open>backendEnvUrl\<close> is \<^verbatim>\<open>process.env.REACT_APP_BACKEND_URL\<close>; \<open>abortController\<close> tells
  whether \<^verbatim>\<open>abortControllerRef.current\<close> holds a controller. The name of the result file
  (\<^verbatim>\<open>resultFilename\<close>) is left out: it only labels the download link.
\<close>

record upload_state =
  backendEnvUrl :: "string option"
  theme_u :: string
  videoFile_u :: "jsfile option"
  subtitleFile_u :: "jsfile option"
  status_u :: string
  message_u :: string
  progress_u :: int
  downloadUrl :: "string option"
  abortController :: bool
  timers :: "timer list"
  requests_u :: "request list"
  statusLog_u :: "string list"
  progressLog_u :: "int list"

definition initial_state_u :: "string option \<Rightarrow> upload_state" where
  "initial_state_u envUrl =
     \<lparr>backendEnvUrl = envUrl, theme_u = ''light'', videoFile_u = None, subtitleFile_u = None,
      status_u = ''idle'', message_u = [], progress_u = 0, downloadUrl = None,
      abortController = False, timers = [], requests_u = [], statusLog_u = [''idle''],
      progressLog_u = [0]\<rparr>"

definition SUPPORTED_SUB_EXTENSIONS :: "string list" where
  "SUPPORTED_SUB_EXTENSIONS = [''.srt'', ''.ass'', ''.ssa'', ''.vtt'']"

text \<open>\<^verbatim>\<open>SUPPORTED_SUB_EXTENSIONS.join(', ')\<close>\<close>

fun join :: "string \<Rightarrow> string list \<Rightarrow> string" where
  "join sep [] = []"
| "join sep [x] = x"
| "join sep (x # y # ys) = x @ sep @ join sep (y # ys)"

definition getBackendUrl :: "string option \<Rightarrow> string" where
  "getBackendUrl envUrl =
     (case envUrl of
        Some u \<Rightarrow> if u \<noteq> [] then stripTrailingSlashes u else ''http://subtitle_backend:3001''
      | None \<Rightarrow> ''http://subtitle_backend:3001'')"

definition setStatus_u :: "string \<Rightarrow> upload_state \<Rightarrow> upload_state" where
  "setStatus_u v st = st\<lparr>status_u := v, statusLog_u := statusLog_u st @ [v]\<rparr>"

definition setMessage :: "string \<Rightarrow> upload_state \<Rightarrow> upload_state" where
  "setMessage v st = st\<lparr>message_u := v\<rparr>"

definition setProgress_u :: "int \<Rightarrow> upload_state \<Rightarrow> upload_state" where
  "setProgress_u v st = st\<lparr>progress_u := v, progressLog_u := progressLog_u st @ [v]\<rparr>"

definition fetch_u :: "request \<Rightarrow> upload_state \<Rightarrow> upload_state" where
  "fetch_u r st = st\<lparr>requests_u := requests_u st @ [r]\<rparr>"

definition toggleTheme_u :: "upload_state \<Rightarrow> upload_state" where
  "toggleTheme_u st = st\<lparr>theme_u := (if theme_u st = ''light'' then ''dark'' else ''light'')\<rparr>"

definition onPickVideo :: "jsfile option \<Rightarrow> upload_state \<Rightarrow> upload_state" where
  "onPickVideo file st = (case file of None \<Rightarrow> st | Some f \<Rightarrow> st\<lparr>videoFile_u := Some f\<rparr>)"

definition supported :: "string \<Rightarrow> bool" where
  "supported name = list_ex (\<lambda>ext. endsWith (toLowerCase name) ext) SUPPORTED_SUB_EXTENSIONS"

definition onPickSubtitle :: "jsfile option \<Rightarrow> upload_state \<Rightarrow> upload_state" where
  "onPickSubtitle file st =
     (case file of
        None \<Rightarrow> st
      | Some f \<Rightarrow>
          if \<not> supported (file_name f) then
            setMessage (''Unsupported subtitle format. Supported: ''
                        @ join '', '' SUPPORTED_SUB_EXTENSIONS)
              (setStatus_u ''error'' st)
          else st\<lparr>subtitleFile_u := Some f\<rparr>)"

definition resetResult :: "upload_state \<Rightarrow> upload_state" where
  "resetResult st = st\<lparr>downloadUrl := None\<rparr>"

definition validateInputs_u :: "upload_state \<Rightarrow> bool \<times> upload_state" where
  "validateInputs_u st =
     (case videoFile_u st of
        None \<Rightarrow> (False, setMessage ''Please select a video file.'' (setStatus_u ''error'' st))
      | Some v \<Rightarrow>
          (case subtitleFile_u st of
             None \<Rightarrow>
               (False,
                setMessage (''Please select a subtitle file (''
                            @ join '', '' SUPPORTED_SUB_EXTENSIONS @ '').'')
                  (setStatus_u ''error'' st))
           | Some s \<Rightarrow>
               if \<not> supported (file_name s) then
                 (False,
                  setMessage (''Unsupported subtitle format. Supported: ''
                              @ join '', '' SUPPORTED_SUB_EXTENSIONS @ ''.'')
                    (setStatus_u ''error'' st))
               else (True, st)))"

subsection \<open>The upload-form application: simulated progress\<close>

definition steps :: nat where
  "steps = 15"

text \<open>
  \<open>simulateProgress\<close> raises the progress to \<open>from\<close> at once and starts an interval
  timer. Each firing of the timer is \<open>timerTick\<close>; when the browser fires it is not in
  the program's hands, so the firings are given from outside, by the timer's index.
\<close>

definition simulateProgress :: "int \<Rightarrow> int \<Rightarrow> int \<Rightarrow> upload_state \<Rightarrow> upload_state" where
  "simulateProgress from to durationMs st =
     (let st1 = setProgress_u (max (progress_u st) from) st
      in st1\<lparr>timers := timers st1 @
                [\<lparr>tm_current = of_int from, tm_count = 0, tm_to = to,
                  tm_increment = of_int (to - from) / of_nat steps,
                  tm_stepTime = of_int durationMs / of_nat steps, tm_cleared = False\<rparr>]\<rparr>)"

definition timerTick :: "nat \<Rightarrow> upload_state \<Rightarrow> upload_state" where
  "timerTick i st =
     (if i < length (timers st) \<and> \<not> tm_cleared (timers st ! i) then
        let t = timers st ! i;
            count = tm_count t + 1;
            current = tm_current t + tm_increment t;
            st1 = setProgress_u (min (max (progress_u st) (js_round current)) (tm_to t)) st
        in st1\<lparr>timers := (timers st1)
                  [i := t\<lparr>tm_count := count, tm_current := current,
                          tm_cleared := (count \<ge> steps)\<rparr>]\<rparr>
      else st)"

definition timerTicks :: "nat list \<Rightarrow> upload_state \<Rightarrow> upload_state" where
  "timerTicks is st = foldl (\<lambda>s i. timerTick i s) st is"

subsection \<open>The upload-form application: handleSubmit and cancelUpload\<close>

text \<open>
  What happens around the two \<^verbatim>\<open>await\<close>s of one submission: the timer firings while
  the \<^verbatim>\<open>fetch\<close> is pending, whether the user presses Cancel meanwhile, how the
  \<^verbatim>\<open>fetch\<close> settles otherwise, and the same for the reading of the body.
\<close>

record submit_env =
  ticks_fetch :: "nat list"
  cancel_fetch :: bool
  fetched :: "response settled"
  ticks_body :: "nat list"
  cancel_body :: bool

text \<open>
  \<open>cancelUpload\<close> calls \<^verbatim>\<open>abort()\<close> on the controller if there is one; the result
  tells whether it did. An aborted signal makes a pending \<^verbatim>\<open>fetch\<close> that carries it, or
  a pending read of its body, reject with an \<^verbatim>\<open>AbortError\<close>.
\<close>

definition cancelUpload :: "upload_state \<Rightarrow> bool" where
  "cancelUpload st = abortController st"

definition await :: "bool \<Rightarrow> request \<Rightarrow> 'a settled \<Rightarrow> 'a settled" where
  "await aborted r settled = (if aborted \<and> req_signal r then Rejected abortError else settled)"

definition safeReadText :: "string settled \<Rightarrow> string" where
  "safeReadText t = (case t of Rejected e \<Rightarrow> [] | Fulfilled s \<Rightarrow> s)"

definition handleSubmit_catch :: "js_error \<Rightarrow> upload_state \<Rightarrow> upload_state" where
  "handleSubmit_catch err st =
     (setProgress_u 0
        (if err_name err = ''AbortError''
         then setMessage ''Upload canceled.'' (setStatus_u ''error'' st)
         else setMessage
                (if err_message err \<noteq> [] then err_message err
                 else ''Something went wrong while contacting the backend.'')
                (setStatus_u ''error'' st)))\<lparr>abortController := False\<rparr>"

definition handleSubmit :: "upload_state \<Rightarrow> submit_env \<Rightarrow> upload_state" where
  "handleSubmit st0 env =
     (case validateInputs_u (setProgress_u 0 (resetResult st0)) of
        (False, st) \<Rightarrow> st
      | (True, st) \<Rightarrow>
          let st1 = setMessage ''Validating files...'' (setStatus_u ''validating'' st);
              form = [(''video'', form_file (videoFile_u st1)),
                      (''subtitle'', form_file (subtitleFile_u st1))];
              st2 = (setMessage ''Uploading files to backend...'' (setStatus_u ''uploading'' st1))
                      \<lparr>abortController := True\<rparr>;
              st3 = simulateProgress 10 60 800 st2;
              r = \<lparr>req_url = getBackendUrl (backendEnvUrl st3) @ ''/reposition'',
                   req_method = ''POST'', req_body = FormDataBody form, req_signal = True\<rparr>;
              st4 = timerTicks (ticks_fetch env) (fetch_u r st3)
          in case await (cancel_fetch env \<and> cancelUpload st4) r (fetched env) of
               Rejected err \<Rightarrow> handleSubmit_catch err st4
             | Fulfilled resp \<Rightarrow>
                 if \<not> resp_ok resp then
                   let st5 = timerTicks (ticks_body env) st4;
                       text' = safeReadText
                                 (await (cancel_body env \<and> cancelUpload st5) r (resp_text resp))
                   in handleSubmit_catch
                        (new_Error (if text' \<noteq> [] then text'
                                    else ''Request failed with status ''
                                         @ toString_nat (resp_status resp))) st5
                 else
                   let st5 = simulateProgress 60 90 600
                               (setMessage ''Processing on server...''
                                  (setStatus_u ''processing'' st4));
                       st6 = timerTicks (ticks_body env) st5
                   in case await (cancel_body env \<and> cancelUpload st6) r (resp_blob resp) of
                        Rejected err \<Rightarrow> handleSubmit_catch err st6
                      | Fulfilled blob \<Rightarrow>
                          (setProgress_u 100
                             (setMessage ''Success! Your repositioned subtitle file is ready.''
                                (setStatus_u ''success''
                                   ((simulateProgress 90 100 200 st6)
                                      \<lparr>downloadUrl := Some blob\<rparr>))))
                            \<lparr>abortController := False\<rparr>)"

subsection \<open>The upload-form application: user actions\<close>

text \<open>
  \<open>CancelUpload\<close> outside a submission finds no controller and does nothing;
  \<open>ClearResult\<close> is the Clear button of the result card; \<open>TimerTick\<close> is a timer
  firing after the submission that started it has finished.
\<close>

datatype upload_action =
    OnPickVideo "jsfile option"
  | OnPickSubtitle "jsfile option"
  | ToggleTheme_u
  | HandleSubmit submit_env
  | CancelUpload
  | ClearResult
  | TimerTick nat

fun step_u :: "upload_state \<Rightarrow> upload_action \<Rightarrow> upload_state" where
  "step_u st (OnPickVideo f) = onPickVideo f st"
| "step_u st (OnPickSubtitle f) = onPickSubtitle f st"
| "step_u st ToggleTheme_u = toggleTheme_u st"
| "step_u st (HandleSubmit env) = handleSubmit st env"
| "step_u st CancelUpload = st"
| "step_u st ClearResult = setStatus_u ''idle'' (setMessage [] (resetResult st))"
| "step_u st (TimerTick i) = timerTick i st"

definition run_u :: "upload_state \<Rightarrow> upload_action list \<Rightarrow> upload_state" where
  "run_u st acts = foldl step_u st acts"

subsection \<open>Histories and sample values\<close>

text \<open>The requests an action issued: those the history gained between two states.\<close>

definition issued :: "app_state \<Rightarrow> app_state \<Rightarrow> request list" where
  "issued st st' = drop (length (requests st)) (requests st')"

definition issued_u :: "upload_state \<Rightarrow> upload_state \<Rightarrow> request list" where
  "issued_u st st' = drop (length (requests_u st)) (requests_u st')"


text \<open>Sample files, responses and states, for the concrete instances below.\<close>

definition sample_video :: jsfile where
  "sample_video = \<lparr>file_name = ''clip.mp4'', file_type = ''video/mp4'', file_content = ''mp4-bytes''\<rparr>"

definition sample_subtitles :: jsfile where
  "sample_subtitles =
     \<lparr>file_name = ''clip.SRT'', file_type = ''application/x-subrip'', file_content = ''srt-bytes''\<rparr>"

definition sample_cues :: "cue list" where
  "sample_cues =
     [\<lparr>cue_start = 1, cue_end = 2.5, cue_text = ''Hello'', cue_position = JString ''top''\<rparr>,
      \<lparr>cue_start = 2, cue_end = 4, cue_text = ''World'', cue_position = JString ''bottom''\<rparr>,
      \<lparr>cue_start = 6, cue_end = 6, cue_text = ''Bye'', cue_position = JUndefined\<rparr>]"

definition sample_ok :: response where
  "sample_ok =
     \<lparr>resp_ok = True, resp_status = 200, resp_text = Fulfilled ''{...}'',
      resp_json = Fulfilled (CuesJson sample_cues), resp_blob = Fulfilled ''srt-out''\<rparr>"

definition sample_500 :: response where
  "sample_500 =
     \<lparr>resp_ok = False, resp_status = 500, resp_text = Fulfilled ''no video stream'',
      resp_json = Rejected \<lparr>err_name = ''SyntaxError'', err_message = ''Unexpected token''\<rparr>,
      resp_blob = Fulfilled ''no video stream''\<rparr>"

definition ready_state :: app_state where
  "ready_state =
     handleSubChange (Some sample_subtitles)
       (handleVideoChange (Some sample_video)
          (initial_state None (Some (''http:'', ''localhost''))))"

definition ready_state_u :: upload_state where
  "ready_state_u =
     onPickSubtitle (Some sample_subtitles) (onPickVideo (Some sample_video) (initial_state_u None))"

definition env_ok :: submit_env where
  "env_ok = \<lparr>ticks_fetch = [0, 0], cancel_fetch = False, fetched = Fulfilled sample_ok,
             ticks_body = [1, 0], cancel_body = False\<rparr>"

definition env_500 :: submit_env where
  "env_500 = \<lparr>ticks_fetch = [0], cancel_fetch = False, fetched = Fulfilled sample_500,
              ticks_body = [], cancel_body = False\<rparr>"

definition env_cancel :: submit_env where
  "env_cancel = \<lparr>ticks_fetch = [0, 0, 0], cancel_fetch = True, fetched = Fulfilled sample_ok,
                 ticks_body = [], cancel_body = False\<rparr>"


text \<open>
  The values the code assigns to the status of each variant (the initial value
  included), and the values \<open>callRepositionAPI\<close>, \<open>downloadRepositionedSRT\<close> and
  \<open>resetState\<close> assign to the progress of the preview variant.
\<close>

definition preview_statuses :: "string list" where
  "preview_statuses =
     [''Idle'', ''Uploading...'', ''Processing...'', ''Done'', ''Error'',
      ''Requesting download...'', ''Downloaded'']"

definition upload_statuses :: "string list" where
  "upload_statuses =
     [''idle'', ''validating'', ''uploading'', ''processing'', ''success'', ''error'']"

definition preview_setpoints :: "int list" where
  "preview_setpoints = [0, 10, 30, 50, 100]"

section \<open>Properties\<close>

subsection \<open>Decimal printing and padding\<close>









subsection \<open>formatTime on non-negative seconds\<close>









subsection \<open>Active cues and their placement\<close>

text \<open>
  Claim C8. For every list of cues and every playback time \<open>t\<close>, the cues shown are
  exactly those with \<open>start \<le> t\<close> and \<open>t \<le> end\<close>, both bounds inclusive, in the
  order of the list; a cue with \<open>start = end\<close> is shown at exactly that instant, and
  a cue with \<open>start > end\<close> is never shown.
\<close>

theorem activeCues_inclusive:
  "activeCues cs t = filter (\<lambda>c. cue_start c \<le> t \<and> t \<le> cue_end c) cs \<and>
   set (activeCues cs t) = {c \<in> set cs. cue_start c \<le> t \<and> t \<le> cue_end c} \<and>
   (\<forall>c \<in> set cs. cue_start c = cue_end c \<longrightarrow>
      (c \<in> set (activeCues cs t)) = (t = cue_start c)) \<and>
   (\<forall>c \<in> set cs. cue_end c < cue_start c \<longrightarrow> c \<notin> set (activeCues cs t))"
proof -
  have f: "activeCues cs t = filter (\<lambda>c. cue_start c \<le> t \<and> t \<le> cue_end c) cs"
    by (cases cs) (simp_all add: activeCues_def)
  show ?thesis unfolding f by auto
qed

theorem activeCues_inclusive_witness:
  "activeCues
     [\<lparr>cue_start = 1, cue_end = 2, cue_text = ''one'', cue_position = JString ''top''\<rparr>,
      \<lparr>cue_start = 3, cue_end = 3, cue_text = ''two'', cue_position = JString ''bottom''\<rparr>,
      \<lparr>cue_start = 5, cue_end = 3, cue_text = ''three'', cue_position = JUndefined\<rparr>,
      \<lparr>cue_start = 2, cue_end = 4, cue_text = ''four'', cue_position = JNull\<rparr>] 3 =
     [\<lparr>cue_start = 3, cue_end = 3, cue_text = ''two'', cue_position = JString ''bottom''\<rparr>,
      \<lparr>cue_start = 2, cue_end = 4, cue_text = ''four'', cue_position = JNull\<rparr>]"
  using activeCues_inclusive
    [of "[\<lparr>cue_start = 1, cue_end = 2, cue_text = ''one'', cue_position = JString ''top''\<rparr>,
      \<lparr>cue_start = 3, cue_end = 3, cue_text = ''two'', cue_position = JString ''bottom''\<rparr>,
      \<lparr>cue_start = 5, cue_end = 3, cue_text = ''three'', cue_position = JUndefined\<rparr>,
      \<lparr>cue_start = 2, cue_end = 4, cue_text = ''four'', cue_position = JNull\<rparr>]" 3]
  by simp

text \<open>
  Claim C9. The overlay of a cue is placed at the top (\<open>top: 6%\<close>) if and only if
  the position hint is exactly the string \<open>top\<close>; for every other value, among them
  \<open>bottom\<close>, an unknown string and a missing field, it is placed at the bottom
  (\<open>bottom: 6%\<close>, and no \<open>top\<close>). The function is total: no hint makes it fail.
\<close>

theorem overlayPositionStyle_top_iff:
  "(map_of (overlayPositionStyle p) ''top'' = Some ''6%'') = (p = JString ''top'') \<and>
   (p = JString ''top'' \<longrightarrow> map_of (overlayPositionStyle p) ''bottom'' = None) \<and>
   (p \<noteq> JString ''top'' \<longrightarrow>
      map_of (overlayPositionStyle p) ''bottom'' = Some ''6%'' \<and>
      map_of (overlayPositionStyle p) ''top'' = None)"
  by (simp add: overlayPositionStyle_def overlay_base_def)

theorem overlayPositionStyle_top_iff_witness:
  "map_of (overlayPositionStyle (JString ''top'')) ''top'' = Some ''6%'' \<and>
   map_of (overlayPositionStyle (JString ''top'')) ''bottom'' = None \<and>
   map_of (overlayPositionStyle (JString ''bottom'')) ''bottom'' = Some ''6%'' \<and>
   map_of (overlayPositionStyle (JString ''middle'')) ''bottom'' = Some ''6%'' \<and>
   map_of (overlayPositionStyle JUndefined) ''bottom'' = Some ''6%'' \<and>
   map_of (overlayPositionStyle JUndefined) ''top'' = None"
  using overlayPositionStyle_top_iff [of "JString ''top''"]
    overlayPositionStyle_top_iff [of "JString ''bottom''"]
    overlayPositionStyle_top_iff [of "JString ''middle''"]
    overlayPositionStyle_top_iff [of JUndefined]
  by simp

subsection \<open>The preview application: what an action changes\<close>

lemmas app_setters = setStatus_def setProgress_def setError_def fetch_def

text \<open>
  \<open>callRepositionAPI\<close> and \<open>downloadRepositionedSRT\<close> get as far as the request when
  both files are selected and the backend URL is configured; otherwise they only set the
  error text.
\<close>

lemma validateInputs_ok:
  "videoFile st \<noteq> None \<Longrightarrow> subtitleFile st \<noteq> None \<Longrightarrow>
   validateInputs st = (True, setError [] st)"
  by (simp add: validateInputs_def)

lemma callRepositionAPI_blocked:
  assumes "\<not> (videoFile st \<noteq> None \<and> subtitleFile st \<noteq> None \<and> backendBaseUrl st \<noteq> [])"
  shows "callRepositionAPI st f =
     setError (if videoFile st = None then ''Please select a video file.''
               else if subtitleFile st = None then ''Please select a subtitle file (SRT).''
               else ''Backend URL is not configured.'') st"
proof (cases "videoFile st \<noteq> None \<and> subtitleFile st \<noteq> None")
  case True
  then have "validateInputs st = (True, setError [] st)" by (simp add: validateInputs_ok)
  then show ?thesis using True assms by (simp add: callRepositionAPI_def setError_def)
next
  case False
  then show ?thesis by (auto simp add: callRepositionAPI_def validateInputs_def)
qed

lemma downloadRepositionedSRT_blocked:
  assumes "\<not> (videoFile st \<noteq> None \<and> subtitleFile st \<noteq> None \<and> backendBaseUrl st \<noteq> [])"
  shows "downloadRepositionedSRT st f =
     setError (if videoFile st = None then ''Please select a video file.''
               else if subtitleFile st = None then ''Please select a subtitle file (SRT).''
               else ''Backend URL is not configured.'') st"
proof (cases "videoFile st \<noteq> None \<and> subtitleFile st \<noteq> None")
  case True
  then have "validateInputs st = (True, setError [] st)" by (simp add: validateInputs_ok)
  then show ?thesis using True assms by (simp add: downloadRepositionedSRT_def setError_def)
next
  case False
  then show ?thesis by (auto simp add: downloadRepositionedSRT_def validateInputs_def)
qed

lemma callRepositionAPI_unblocked:
  assumes "videoFile st \<noteq> None \<and> subtitleFile st \<noteq> None \<and> backendBaseUrl st \<noteq> []"
  shows "callRepositionAPI st f =
     (let st1 = setProgress 10 (setStatus ''Uploading...''
                  ((setError [] st)\<lparr>isProcessing := True\<rparr>));
          formData = [(''video'', form_file (videoFile st1)),
                      (''subtitles_file'', form_file (subtitleFile st1))];
          st2 = fetch \<lparr>req_url = backendBaseUrl st1 @ ''/reposition/subtitles'',
                       req_method = ''POST'', req_body = FormDataBody formData,
                       req_signal = False\<rparr> st1
      in case f of
           Rejected e \<Rightarrow> callRepositionAPI_catch e st2
         | Fulfilled resp \<Rightarrow>
             let st3 = setProgress 50 (setStatus ''Processing...'' st2)
             in if \<not> resp_ok resp then
                  (case resp_text resp of
                     Rejected e \<Rightarrow> callRepositionAPI_catch e st3
                   | Fulfilled text' \<Rightarrow>
                       callRepositionAPI_catch
                         (new_Error (''Backend error ('' @ toString_nat (resp_status resp)
                                     @ ''): '' @ text')) st3)
                else
                  (case resp_json resp of
                     Rejected e \<Rightarrow> callRepositionAPI_catch e st3
                   | Fulfilled OtherJson \<Rightarrow>
                       callRepositionAPI_catch
                         (new_Error ''Unexpected response format from backend.'') st3
                   | Fulfilled (CuesJson cs) \<Rightarrow>
                       (setProgress 100 (setStatus ''Done'' (st3\<lparr>cues := cs\<rparr>)))
                         \<lparr>isProcessing := False\<rparr>))"
proof -
  have v: "validateInputs st = (True, setError [] st)" using assms by (simp add: validateInputs_ok)
  have s: "backendBaseUrl (setError [] st) \<noteq> []" using assms by (simp add: setError_def)
  show ?thesis unfolding callRepositionAPI_def v using s by simp
qed

lemma downloadRepositionedSRT_unblocked:
  assumes "videoFile st \<noteq> None \<and> subtitleFile st \<noteq> None \<and> backendBaseUrl st \<noteq> []"
  shows "downloadRepositionedSRT st f =
     (let st1 = setProgress 30
                  (setStatus ''Requesting download...''
                     ((setError [] st)\<lparr>isProcessing := True\<rparr>));
          formData = [(''video'', form_file (videoFile st1)),
                      (''subtitles_file'', form_file (subtitleFile st1)),
                      (''include_position_hint'',
                       StringValue (if includePositionHint st1 then ''true'' else ''false''))];
          st2 = fetch \<lparr>req_url = backendBaseUrl st1 @ ''/reposition/subtitles/download'',
                       req_method = ''POST'', req_body = FormDataBody formData,
                       req_signal = False\<rparr> st1
      in case f of
           Rejected e \<Rightarrow> downloadRepositionedSRT_catch e st2
         | Fulfilled resp \<Rightarrow>
             if \<not> resp_ok resp then
               (case resp_text resp of
                  Rejected e \<Rightarrow> downloadRepositionedSRT_catch e st2
                | Fulfilled text' \<Rightarrow>
                    downloadRepositionedSRT_catch
                      (new_Error (''Backend error ('' @ toString_nat (resp_status resp)
                                  @ ''): '' @ text')) st2)
             else
               (case resp_blob resp of
                  Rejected e \<Rightarrow> downloadRepositionedSRT_catch e st2
                | Fulfilled blob \<Rightarrow>
                    (setProgress 100
                       (setStatus ''Downloaded''
                          (st2\<lparr>downloads :=
                                 downloads st2 @ [(baseName (subtitleFile st2), blob)]\<rparr>)))
                      \<lparr>isProcessing := False\<rparr>))"
proof -
  have v: "validateInputs st = (True, setError [] st)" using assms by (simp add: validateInputs_ok)
  have s: "backendBaseUrl (setError [] st) \<noteq> []" using assms by (simp add: setError_def)
  show ?thesis unfolding downloadRepositionedSRT_def v using s by simp
qed

lemmas api_eval = Let_def app_setters callRepositionAPI_catch_def
  downloadRepositionedSRT_catch_def

lemma callRepositionAPI_requests:
  "requests (callRepositionAPI st f) =
     (if videoFile st \<noteq> None \<and> subtitleFile st \<noteq> None \<and> backendBaseUrl st \<noteq> []
      then requests st @
        [\<lparr>req_url = backendBaseUrl st @ ''/reposition/subtitles'', req_method = ''POST'',
          req_body = FormDataBody [(''video'', form_file (videoFile st)),
                                   (''subtitles_file'', form_file (subtitleFile st))],
          req_signal = False\<rparr>]
      else requests st)"
proof (cases "videoFile st \<noteq> None \<and> subtitleFile st \<noteq> None \<and> backendBaseUrl st \<noteq> []")
  case True
  show ?thesis unfolding callRepositionAPI_unblocked [OF True] using True
    by (cases f; cases "resp_ok (case f of Fulfilled r \<Rightarrow> r)";
        cases "resp_text (case f of Fulfilled r \<Rightarrow> r)";
        cases "resp_json (case f of Fulfilled r \<Rightarrow> r)")
      (simp_all add: api_eval split: json_payload.split)
next
  case False
  show ?thesis unfolding callRepositionAPI_blocked [OF False] using False
    by (simp add: setError_def)
qed

lemma downloadRepositionedSRT_requests:
  "requests (downloadRepositionedSRT st f) =
     (if videoFile st \<noteq> None \<and> subtitleFile st \<noteq> None \<and> backendBaseUrl st \<noteq> []
      then requests st @
        [\<lparr>req_url = backendBaseUrl st @ ''/reposition/subtitles/download'',
          req_method = ''POST'',
          req_body = FormDataBody
            [(''video'', form_file (videoFile st)),
             (''subtitles_file'', form_file (subtitleFile st)),
             (''include_position_hint'',
              StringValue (if includePositionHint st then ''true'' else ''false''))],
          req_signal = False\<rparr>]
      else requests st)"
proof (cases "videoFile st \<noteq> None \<and> subtitleFile st \<noteq> None \<and> backendBaseUrl st \<noteq> []")
  case True
  show ?thesis unfolding downloadRepositionedSRT_unblocked [OF True] using True
    by (cases f; cases "resp_ok (case f of Fulfilled r \<Rightarrow> r)";
        cases "resp_text (case f of Fulfilled r \<Rightarrow> r)";
        cases "resp_blob (case f of Fulfilled r \<Rightarrow> r)")
      (simp_all add: api_eval)
next
  case False
  show ?thesis unfolding downloadRepositionedSRT_blocked [OF False] using False
    by (simp add: setError_def)
qed



lemma callRepositionAPI_statusLog:
  "statusLog (callRepositionAPI st f) =
     statusLog st @
     (if videoFile st \<noteq> None \<and> subtitleFile st \<noteq> None \<and> backendBaseUrl st \<noteq> []
      then ''Uploading...'' #
           (case f of
              Rejected e \<Rightarrow> [''Error'']
            | Fulfilled r \<Rightarrow>
                [''Processing...'',
                 if resp_ok r \<and> (\<exists>cs. resp_json r = Fulfilled (CuesJson cs))
                 then ''Done'' else ''Error''])
      else [])"
proof (cases "videoFile st \<noteq> None \<and> subtitleFile st \<noteq> None \<and> backendBaseUrl st \<noteq> []")
  case True
  show ?thesis unfolding callRepositionAPI_unblocked [OF True] using True
    by (cases f; cases "resp_ok (case f of Fulfilled r \<Rightarrow> r)";
        cases "resp_text (case f of Fulfilled r \<Rightarrow> r)";
        cases "resp_json (case f of Fulfilled r \<Rightarrow> r)")
      (simp_all add: api_eval split: json_payload.split)
next
  case False
  show ?thesis unfolding callRepositionAPI_blocked [OF False] using False
    by (simp add: setError_def)
qed

lemma downloadRepositionedSRT_statusLog:
  "statusLog (downloadRepositionedSRT st f) =
     statusLog st @
     (if videoFile st \<noteq> None \<and> subtitleFile st \<noteq> None \<and> backendBaseUrl st \<noteq> []
      then [''Requesting download...'',
            if (\<exists>r b. f = Fulfilled r \<and> resp_ok r \<and> resp_blob r = Fulfilled b)
            then ''Downloaded'' else ''Error'']
      else [])"
proof (cases "videoFile st \<noteq> None \<and> subtitleFile st \<noteq> None \<and> backendBaseUrl st \<noteq> []")
  case True
  show ?thesis unfolding downloadRepositionedSRT_unblocked [OF True] using True
    by (cases f; cases "resp_ok (case f of Fulfilled r \<Rightarrow> r)";
        cases "resp_text (case f of Fulfilled r \<Rightarrow> r)";
        cases "resp_blob (case f of Fulfilled r \<Rightarrow> r)")
      (simp_all add: api_eval)
next
  case False
  show ?thesis unfolding downloadRepositionedSRT_blocked [OF False] using False
    by (simp add: setError_def)
qed

lemma callRepositionAPI_frame:
  "backendBaseUrl (callRepositionAPI st f) = backendBaseUrl st \<and>
   videoFile (callRepositionAPI st f) = videoFile st \<and>
   subtitleFile (callRepositionAPI st f) = subtitleFile st"
proof (cases "videoFile st \<noteq> None \<and> subtitleFile st \<noteq> None \<and> backendBaseUrl st \<noteq> []")
  case True
  show ?thesis unfolding callRepositionAPI_unblocked [OF True]
    by (cases f; cases "resp_ok (case f of Fulfilled r \<Rightarrow> r)";
        cases "resp_text (case f of Fulfilled r \<Rightarrow> r)";
        cases "resp_json (case f of Fulfilled r \<Rightarrow> r)")
      (simp_all add: api_eval split: json_payload.split)
next
  case False
  show ?thesis unfolding callRepositionAPI_blocked [OF False]
    by (simp add: setError_def)
qed

lemma downloadRepositionedSRT_frame:
  "backendBaseUrl (downloadRepositionedSRT st f) = backendBaseUrl st \<and>
   videoFile (downloadRepositionedSRT st f) = videoFile st \<and>
   subtitleFile (downloadRepositionedSRT st f) = subtitleFile st"
proof (cases "videoFile st \<noteq> None \<and> subtitleFile st \<noteq> None \<and> backendBaseUrl st \<noteq> []")
  case True
  show ?thesis unfolding downloadRepositionedSRT_unblocked [OF True]
    by (cases f; cases "resp_ok (case f of Fulfilled r \<Rightarrow> r)";
        cases "resp_text (case f of Fulfilled r \<Rightarrow> r)";
        cases "resp_blob (case f of Fulfilled r \<Rightarrow> r)")
      (simp_all add: api_eval)
next
  case False
  show ?thesis unfolding downloadRepositionedSRT_blocked [OF False]
    by (simp add: setError_def)
qed

lemmas step_eval = handleVideoChange_def handleSubChange_def toggleTheme_def resetState_def
  app_setters onTimeUpdate_def

lemma step_backendBaseUrl: "backendBaseUrl (step st a) = backendBaseUrl st"
  by (cases a)
    (simp_all add: callRepositionAPI_frame downloadRepositionedSRT_frame step_eval
      split: option.split)

lemma run_snoc: "run st (acts @ [a]) = step (run st acts) a"
  by (simp add: run_def)

lemma run_backendBaseUrl: "backendBaseUrl (run st acts) = backendBaseUrl st"
  by (induction acts rule: rev_induct) (simp_all add: run_def step_backendBaseUrl)

text \<open>The requests issued by one action of the preview application.\<close>

lemma step_issued:
  "issued st (step st a) =
     (if videoFile st \<noteq> None \<and> subtitleFile st \<noteq> None \<and> backendBaseUrl st \<noteq> [] then
        (case a of
           CallRepositionAPI f \<Rightarrow>
             [\<lparr>req_url = backendBaseUrl st @ ''/reposition/subtitles'', req_method = ''POST'',
               req_body = FormDataBody [(''video'', form_file (videoFile st)),
                                        (''subtitles_file'', form_file (subtitleFile st))],
               req_signal = False\<rparr>]
         | DownloadRepositionedSRT f \<Rightarrow>
             [\<lparr>req_url = backendBaseUrl st @ ''/reposition/subtitles/download'',
               req_method = ''POST'',
               req_body = FormDataBody
                 [(''video'', form_file (videoFile st)),
                  (''subtitles_file'', form_file (subtitleFile st)),
                  (''include_position_hint'',
                   StringValue (if includePositionHint st then ''true'' else ''false''))],
               req_signal = False\<rparr>]
         | _ \<Rightarrow> [])
      else [])"
  by (cases a)
    (simp_all add: issued_def callRepositionAPI_requests downloadRepositionedSRT_requests
      step_eval split: option.split)

lemma step_requests: "requests (step st a) = requests st @ issued st (step st a)"
  by (cases a)
    (simp_all add: issued_def callRepositionAPI_requests downloadRepositionedSRT_requests
      step_eval split: option.split)

subsection \<open>The upload-form application: what an action changes\<close>

lemmas upload_setters = setStatus_u_def setProgress_u_def setMessage_def fetch_u_def resetResult_def

lemma timerTick_frame:
  "requests_u (timerTick i st) = requests_u st"
  "status_u (timerTick i st) = status_u st"
  "message_u (timerTick i st) = message_u st"
  "statusLog_u (timerTick i st) = statusLog_u st"
  "abortController (timerTick i st) = abortController st"
  "videoFile_u (timerTick i st) = videoFile_u st"
  "subtitleFile_u (timerTick i st) = subtitleFile_u st"
  "backendEnvUrl (timerTick i st) = backendEnvUrl st"
  "downloadUrl (timerTick i st) = downloadUrl st"
  by (simp_all add: timerTick_def Let_def setProgress_u_def)

lemma timerTicks_Nil: "timerTicks [] st = st"
  by (simp add: timerTicks_def)

lemma timerTicks_Cons: "timerTicks (i # is) st = timerTicks is (timerTick i st)"
  by (simp add: timerTicks_def)

lemma timerTicks_frame:
  "requests_u (timerTicks is st) = requests_u st"
  "status_u (timerTicks is st) = status_u st"
  "message_u (timerTicks is st) = message_u st"
  "statusLog_u (timerTicks is st) = statusLog_u st"
  "abortController (timerTicks is st) = abortController st"
  "videoFile_u (timerTicks is st) = videoFile_u st"
  "subtitleFile_u (timerTicks is st) = subtitleFile_u st"
  "backendEnvUrl (timerTicks is st) = backendEnvUrl st"
  "downloadUrl (timerTicks is st) = downloadUrl st"
  by (induction "is" arbitrary: st; simp add: timerTicks_Nil timerTicks_Cons timerTick_frame)+

lemma simulateProgress_frame:
  "requests_u (simulateProgress a b d st) = requests_u st"
  "status_u (simulateProgress a b d st) = status_u st"
  "message_u (simulateProgress a b d st) = message_u st"
  "statusLog_u (simulateProgress a b d st) = statusLog_u st"
  "abortController (simulateProgress a b d st) = abortController st"
  "videoFile_u (simulateProgress a b d st) = videoFile_u st"
  "subtitleFile_u (simulateProgress a b d st) = subtitleFile_u st"
  "backendEnvUrl (simulateProgress a b d st) = backendEnvUrl st"
  "downloadUrl (simulateProgress a b d st) = downloadUrl st"
  by (simp_all add: simulateProgress_def Let_def setProgress_u_def)

lemmas upload_frames = timerTicks_frame simulateProgress_frame


lemma validateInputs_u_fst:
  "fst (validateInputs_u st) =
     (videoFile_u st \<noteq> None \<and> (\<exists>s. subtitleFile_u st = Some s \<and> supported (file_name s)))"
  by (auto simp add: validateInputs_u_def split: option.splits)

lemma validateInputs_u_True:
  "fst (validateInputs_u st) \<Longrightarrow> validateInputs_u st = (True, st)"
  by (auto simp add: validateInputs_u_def upload_setters split: option.splits if_splits)

lemma validateInputs_u_False:
  "\<not> fst (validateInputs_u st) \<Longrightarrow>
   validateInputs_u st = (False, snd (validateInputs_u st)) \<and>
   requests_u (snd (validateInputs_u st)) = requests_u st \<and>
   status_u (snd (validateInputs_u st)) = ''error'' \<and>
   statusLog_u (snd (validateInputs_u st)) = statusLog_u st @ [''error''] \<and>
   progressLog_u (snd (validateInputs_u st)) = progressLog_u st"
  by (auto simp add: validateInputs_u_def upload_setters split: option.splits if_splits)

lemma validateInputs_u_reset:
  "fst (validateInputs_u (setProgress_u 0 (resetResult st))) = fst (validateInputs_u st)"
  by (simp add: validateInputs_u_def upload_setters split: option.splits)

text \<open>
  The request of a submission, and the submission in each of its outcomes. In all of
  them the inputs are valid; \<open>handleSubmit_invalid\<close> is the other case.
\<close>

lemma handleSubmit_invalid:
  assumes "\<not> fst (validateInputs_u st)"
  shows "requests_u (handleSubmit st env) = requests_u st"
    and "status_u (handleSubmit st env) = ''error''"
    and "statusLog_u (handleSubmit st env) = statusLog_u st @ [''error'']"
    and "progressLog_u (handleSubmit st env) = progressLog_u st @ [0]"
proof -
  let ?s = "setProgress_u 0 (resetResult st)"
  have n: "\<not> fst (validateInputs_u ?s)" using assms by (simp add: validateInputs_u_reset)
  have h: "handleSubmit st env = snd (validateInputs_u ?s)"
    using validateInputs_u_False [OF n] unfolding handleSubmit_def
    by (cases "validateInputs_u ?s") simp
  show "requests_u (handleSubmit st env) = requests_u st"
    using validateInputs_u_False [OF n] by (simp add: h upload_setters)
  show "status_u (handleSubmit st env) = ''error''"
    using validateInputs_u_False [OF n] by (simp add: h)
  show "statusLog_u (handleSubmit st env) = statusLog_u st @ [''error'']"
    using validateInputs_u_False [OF n] by (simp add: h upload_setters)
  show "progressLog_u (handleSubmit st env) = progressLog_u st @ [0]"
    using validateInputs_u_False [OF n] by (simp add: h upload_setters)
qed

lemma handleSubmit_valid:
  assumes "fst (validateInputs_u st)"
  shows "validateInputs_u (setProgress_u 0 (resetResult st)) =
           (True, setProgress_u 0 (resetResult st))"
  using assms by (intro validateInputs_u_True) (simp add: validateInputs_u_reset)

lemma handleSubmit_requests:
  "requests_u (handleSubmit st env) =
     (if fst (validateInputs_u st)
      then requests_u st @
        [\<lparr>req_url = getBackendUrl (backendEnvUrl st) @ ''/reposition'', req_method = ''POST'',
          req_body = FormDataBody [(''video'', form_file (videoFile_u st)),
                                   (''subtitle'', form_file (subtitleFile_u st))],
          req_signal = True\<rparr>]
      else requests_u st)"
proof (cases "fst (validateInputs_u st)")
  case True
  show ?thesis
    unfolding handleSubmit_def handleSubmit_valid [OF True]
    using True
    by (simp add: Let_def upload_frames handleSubmit_catch_def upload_setters
        split: settled.split)
next
  case False
  then show ?thesis by (simp add: handleSubmit_invalid)
qed

lemma handleSubmit_statusLog:
  "\<exists>new. statusLog_u (handleSubmit st env) = statusLog_u st @ new \<and>
         set new \<subseteq> set upload_statuses"
proof (cases "fst (validateInputs_u st)")
  case True
  show ?thesis
    unfolding handleSubmit_def handleSubmit_valid [OF True]
    by (simp add: Let_def upload_frames handleSubmit_catch_def upload_setters
        upload_statuses_def split: settled.split)
next
  case False
  then show ?thesis by (simp add: handleSubmit_invalid upload_statuses_def)
qed


lemma handleSubmit_non_ok:
  assumes "fst (validateInputs_u st)" and "fetched env = Fulfilled r" and "\<not> resp_ok r"
    and "\<not> cancel_fetch env"
  shows "message_u (handleSubmit st env) =
           (let text' = safeReadText (if cancel_body env then Rejected abortError else resp_text r)
            in if text' \<noteq> [] then text'
               else ''Request failed with status '' @ toString_nat (resp_status r))"
    and "status_u (handleSubmit st env) = ''error''"
    and "statusLog_u (handleSubmit st env) =
           statusLog_u st @ [''validating'', ''uploading'', ''error'']"
proof -
  note v = handleSubmit_valid [OF assms(1)]
  show "message_u (handleSubmit st env) =
           (let text' = safeReadText (if cancel_body env then Rejected abortError else resp_text r)
            in if text' \<noteq> [] then text'
               else ''Request failed with status '' @ toString_nat (resp_status r))"
    using assms(2-4) unfolding handleSubmit_def v
    by (simp add: Let_def await_def cancelUpload_def upload_frames
        handleSubmit_catch_def new_Error_def upload_setters)
  show "status_u (handleSubmit st env) = ''error''"
    using assms(2-4) unfolding handleSubmit_def v
    by (simp add: Let_def await_def cancelUpload_def upload_frames
        handleSubmit_catch_def new_Error_def upload_setters)
  show "statusLog_u (handleSubmit st env) =
          statusLog_u st @ [''validating'', ''uploading'', ''error'']"
    using assms(2-4) unfolding handleSubmit_def v
    by (simp add: Let_def await_def cancelUpload_def upload_frames
        handleSubmit_catch_def new_Error_def upload_setters)
qed

lemma handleSubmit_success:
  assumes "fst (validateInputs_u st)" and "fetched env = Fulfilled r" and "resp_ok r"
    and "resp_blob r = Fulfilled b" and "\<not> cancel_fetch env" and "\<not> cancel_body env"
  shows "status_u (handleSubmit st env) = ''success''"
    and "downloadUrl (handleSubmit st env) = Some b"
    and "progress_u (handleSubmit st env) = 100"
    and "statusLog_u (handleSubmit st env) =
           statusLog_u st @ [''validating'', ''uploading'', ''processing'', ''success'']"
proof -
  note v = handleSubmit_valid [OF assms(1)]
  show "status_u (handleSubmit st env) = ''success''"
    using assms(2-6) unfolding handleSubmit_def v
    by (simp add: Let_def await_def cancelUpload_def upload_frames upload_setters)
  show "downloadUrl (handleSubmit st env) = Some b"
    using assms(2-6) unfolding handleSubmit_def v
    by (simp add: Let_def await_def cancelUpload_def upload_frames upload_setters)
  show "progress_u (handleSubmit st env) = 100"
    using assms(2-6) unfolding handleSubmit_def v
    by (simp add: Let_def await_def cancelUpload_def upload_frames upload_setters)
  show "statusLog_u (handleSubmit st env) =
          statusLog_u st @ [''validating'', ''uploading'', ''processing'', ''success'']"
    using assms(2-6) unfolding handleSubmit_def v
    by (simp add: Let_def await_def cancelUpload_def upload_frames upload_setters)
qed

subsection \<open>The upload-form application: the progress computation\<close>















subsection \<open>Runs of the two applications\<close>

lemma callRepositionAPI_logs:
  "\<exists>ns np. statusLog (callRepositionAPI st f) = statusLog st @ ns \<and>
           set ns \<subseteq> set preview_statuses \<and>
           progressLog (callRepositionAPI st f) = progressLog st @ np \<and>
           set np \<subseteq> set preview_setpoints"
proof (cases "videoFile st \<noteq> None \<and> subtitleFile st \<noteq> None \<and> backendBaseUrl st \<noteq> []")
  case True
  show ?thesis
    unfolding callRepositionAPI_unblocked [OF True] preview_statuses_def preview_setpoints_def
    by (cases f; cases "resp_ok (case f of Fulfilled r \<Rightarrow> r)";
        cases "resp_text (case f of Fulfilled r \<Rightarrow> r)";
        cases "resp_json (case f of Fulfilled r \<Rightarrow> r)")
      (simp_all add: api_eval split: json_payload.split)
next
  case False
  show ?thesis unfolding callRepositionAPI_blocked [OF False] by (simp add: setError_def)
qed

lemma downloadRepositionedSRT_logs:
  "\<exists>ns np. statusLog (downloadRepositionedSRT st f) = statusLog st @ ns \<and>
           set ns \<subseteq> set preview_statuses \<and>
           progressLog (downloadRepositionedSRT st f) = progressLog st @ np \<and>
           set np \<subseteq> set preview_setpoints"
proof (cases "videoFile st \<noteq> None \<and> subtitleFile st \<noteq> None \<and> backendBaseUrl st \<noteq> []")
  case True
  show ?thesis
    unfolding downloadRepositionedSRT_unblocked [OF True] preview_statuses_def
      preview_setpoints_def
    by (cases f; cases "resp_ok (case f of Fulfilled r \<Rightarrow> r)";
        cases "resp_text (case f of Fulfilled r \<Rightarrow> r)";
        cases "resp_blob (case f of Fulfilled r \<Rightarrow> r)")
      (simp_all add: api_eval)
next
  case False
  show ?thesis unfolding downloadRepositionedSRT_blocked [OF False] by (simp add: setError_def)
qed

lemma step_logs:
  "\<exists>ns np. statusLog (step st a) = statusLog st @ ns \<and> set ns \<subseteq> set preview_statuses \<and>
           progressLog (step st a) = progressLog st @ np \<and> set np \<subseteq> set preview_setpoints"
proof (cases a)
  case (CallRepositionAPI f)
  show ?thesis unfolding CallRepositionAPI step.simps by (rule callRepositionAPI_logs)
next
  case (DownloadRepositionedSRT f)
  show ?thesis unfolding DownloadRepositionedSRT step.simps by (rule downloadRepositionedSRT_logs)
qed (simp_all add: step_eval preview_statuses_def preview_setpoints_def split: option.split)

lemma run_logs:
  "set (statusLog (run st acts)) \<subseteq> set (statusLog st) \<union> set preview_statuses \<and>
   set (progressLog (run st acts)) \<subseteq> set (progressLog st) \<union> set preview_setpoints"
proof (induction acts rule: rev_induct)
  case Nil
  then show ?case by (simp add: run_def)
next
  case (snoc a acts)
  from step_logs [of "run st acts" a]
  obtain ns np where n: "statusLog (step (run st acts) a) = statusLog (run st acts) @ ns"
    and s: "set ns \<subseteq> set preview_statuses"
    and p: "progressLog (step (run st acts) a) = progressLog (run st acts) @ np"
    and q: "set np \<subseteq> set preview_setpoints"
    by blast
  have "set (statusLog (run st (acts @ [a]))) = set (statusLog (run st acts)) \<union> set ns"
    and "set (progressLog (run st (acts @ [a]))) = set (progressLog (run st acts)) \<union> set np"
    by (simp_all add: run_snoc n p)
  then show ?case using snoc.IH s q by blast
qed

lemma run_requests:
  "\<forall>r \<in> set (requests (run st acts)).
     r \<in> set (requests st) \<or>
     req_method r = ''POST'' \<and>
     (\<exists>v s rest. req_body r =
        FormDataBody ((''video'', FileValue v) # (''subtitles_file'', FileValue s) # rest)) \<and>
     (req_url r = backendBaseUrl st @ ''/reposition/subtitles'' \<or>
      req_url r = backendBaseUrl st @ ''/reposition/subtitles/download'')"
proof (induction acts rule: rev_induct)
  case Nil
  then show ?case by (simp add: run_def)
next
  case (snoc a acts)
  let ?s = "run st acts"
  have b: "backendBaseUrl ?s = backendBaseUrl st" by (rule run_backendBaseUrl)
  have "\<forall>r \<in> set (issued ?s (step ?s a)).
     req_method r = ''POST'' \<and>
     (\<exists>v s rest. req_body r =
        FormDataBody ((''video'', FileValue v) # (''subtitles_file'', FileValue s) # rest)) \<and>
     (req_url r = backendBaseUrl st @ ''/reposition/subtitles'' \<or>
      req_url r = backendBaseUrl st @ ''/reposition/subtitles/download'')"
    unfolding step_issued b [symmetric]
    by (cases a) (auto simp add: form_file_def)
  moreover have "set (requests (run st (acts @ [a]))) =
      set (requests ?s) \<union> set (issued ?s (step ?s a))"
    using step_requests [of ?s a] by (simp add: run_snoc)
  ultimately show ?case using snoc.IH by blast
qed

lemma handleSubmit_files:
  "videoFile_u (handleSubmit st env) = videoFile_u st"
  "subtitleFile_u (handleSubmit st env) = subtitleFile_u st"
  "backendEnvUrl (handleSubmit st env) = backendEnvUrl st"
proof -
  have "videoFile_u (handleSubmit st env) = videoFile_u st \<and>
        subtitleFile_u (handleSubmit st env) = subtitleFile_u st \<and>
        backendEnvUrl (handleSubmit st env) = backendEnvUrl st"
  proof (cases "fst (validateInputs_u st)")
    case True
    show ?thesis
      unfolding handleSubmit_def handleSubmit_valid [OF True]
      by (simp add: Let_def upload_frames handleSubmit_catch_def upload_setters
          split: settled.split)
  next
    case False
    then have n: "\<not> fst (validateInputs_u (setProgress_u 0 (resetResult st)))"
      by (simp add: validateInputs_u_reset)
    have "handleSubmit st env = snd (validateInputs_u (setProgress_u 0 (resetResult st)))"
      using validateInputs_u_False [OF n] unfolding handleSubmit_def
      by (cases "validateInputs_u (setProgress_u 0 (resetResult st))") simp
    then show ?thesis
      by (simp add: validateInputs_u_def upload_setters split: option.split)
  qed
  then show "videoFile_u (handleSubmit st env) = videoFile_u st"
    and "subtitleFile_u (handleSubmit st env) = subtitleFile_u st"
    and "backendEnvUrl (handleSubmit st env) = backendEnvUrl st"
    by simp_all
qed

lemma step_u_backendEnvUrl: "backendEnvUrl (step_u st a) = backendEnvUrl st"
  by (cases a)
    (simp_all add: handleSubmit_files onPickVideo_def onPickSubtitle_def toggleTheme_u_def
      upload_setters timerTick_frame split: option.split)

lemma run_u_snoc: "run_u st (acts @ [a]) = step_u (run_u st acts) a"
  by (simp add: run_u_def)

lemma run_u_backendEnvUrl: "backendEnvUrl (run_u st acts) = backendEnvUrl st"
  by (induction acts rule: rev_induct) (simp_all add: run_u_def step_u_backendEnvUrl)

text \<open>The requests issued by one action of the upload-form application.\<close>

lemma step_u_issued:
  "issued_u st (step_u st a) =
     (case a of
        HandleSubmit env \<Rightarrow>
          if fst (validateInputs_u st) then
            [\<lparr>req_url = getBackendUrl (backendEnvUrl st) @ ''/reposition'',
              req_method = ''POST'',
              req_body = FormDataBody [(''video'', form_file (videoFile_u st)),
                                       (''subtitle'', form_file (subtitleFile_u st))],
              req_signal = True\<rparr>]
          else []
      | _ \<Rightarrow> [])"
  by (cases a)
    (simp_all add: issued_u_def handleSubmit_requests onPickVideo_def onPickSubtitle_def
      toggleTheme_u_def upload_setters timerTick_frame split: option.split)

lemma step_u_requests: "requests_u (step_u st a) = requests_u st @ issued_u st (step_u st a)"
  by (cases a)
    (simp_all add: issued_u_def handleSubmit_requests onPickVideo_def onPickSubtitle_def
      toggleTheme_u_def upload_setters timerTick_frame split: option.split)

lemma run_u_requests:
  "\<forall>r \<in> set (requests_u (run_u st acts)).
     r \<in> set (requests_u st) \<or>
     req_method r = ''POST'' \<and>
     (\<exists>v s. req_body r = FormDataBody [(''video'', FileValue v), (''subtitle'', FileValue s)]) \<and>
     req_url r = getBackendUrl (backendEnvUrl st) @ ''/reposition''"
proof (induction acts rule: rev_induct)
  case Nil
  then show ?case by (simp add: run_u_def)
next
  case (snoc a acts)
  let ?s = "run_u st acts"
  have b: "backendEnvUrl ?s = backendEnvUrl st" by (rule run_u_backendEnvUrl)
  have "\<forall>r \<in> set (issued_u ?s (step_u ?s a)).
     req_method r = ''POST'' \<and>
     (\<exists>v s. req_body r = FormDataBody [(''video'', FileValue v), (''subtitle'', FileValue s)]) \<and>
     req_url r = getBackendUrl (backendEnvUrl st) @ ''/reposition''"
    unfolding step_u_issued b [symmetric]
    by (cases a) (auto simp add: form_file_def validateInputs_u_fst)
  moreover have "set (requests_u (run_u st (acts @ [a]))) =
      set (requests_u ?s) \<union> set (issued_u ?s (step_u ?s a))"
    using step_u_requests [of ?s a] by (simp add: run_u_snoc)
  ultimately show ?case using snoc.IH by blast
qed

lemma step_u_statusLog:
  "\<exists>new. statusLog_u (step_u st a) = statusLog_u st @ new \<and> set new \<subseteq> set upload_statuses"
proof (cases a)
  case (HandleSubmit env)
  show ?thesis unfolding HandleSubmit step_u.simps by (rule handleSubmit_statusLog)
qed (simp_all add: onPickVideo_def onPickSubtitle_def toggleTheme_u_def upload_setters
    timerTick_frame upload_statuses_def split: option.split)

lemma run_u_statusLog:
  "set (statusLog_u (run_u st acts)) \<subseteq> set (statusLog_u st) \<union> set upload_statuses"
proof (induction acts rule: rev_induct)
  case Nil
  then show ?case by (simp add: run_u_def)
next
  case (snoc a acts)
  from step_u_statusLog [of "run_u st acts" a]
  obtain new where n: "statusLog_u (step_u (run_u st acts) a) = statusLog_u (run_u st acts) @ new"
    and s: "set new \<subseteq> set upload_statuses"
    by blast
  have "set (statusLog_u (run_u st (acts @ [a]))) = set (statusLog_u (run_u st acts)) \<union> set new"
    by (simp add: run_u_snoc n)
  then show ?case using snoc.IH s by blast
qed

subsection \<open>The sample values\<close>

lemma ready_state_fields:
  "videoFile ready_state = Some sample_video"
  "subtitleFile ready_state = Some sample_subtitles"
  "backendBaseUrl ready_state = ''http://localhost:3001''"
  "requests ready_state = []"
  "statusLog ready_state = [''Idle'']"
  "includePositionHint ready_state"
  by (simp_all add: ready_state_def handleSubChange_def handleVideoChange_def initial_state_def
      locationBaseUrl_def)

lemma supported_sample: "supported (file_name sample_subtitles)"
  by (simp add: sample_subtitles_def supported_def SUPPORTED_SUB_EXTENSIONS_def endsWith_def
      toLowerCase_def toLowerCase_char_def)

lemma picked_fields:
  "videoFile_u (onPickSubtitle (Some sample_subtitles) (onPickVideo (Some sample_video) st)) =
     Some sample_video"
  "subtitleFile_u (onPickSubtitle (Some sample_subtitles) (onPickVideo (Some sample_video) st)) =
     Some sample_subtitles"
  "requests_u (onPickSubtitle (Some sample_subtitles) (onPickVideo (Some sample_video) st)) =
     requests_u st"
  "statusLog_u (onPickSubtitle (Some sample_subtitles) (onPickVideo (Some sample_video) st)) =
     statusLog_u st"
  "backendEnvUrl (onPickSubtitle (Some sample_subtitles) (onPickVideo (Some sample_video) st)) =
     backendEnvUrl st"
  by (simp_all add: onPickSubtitle_def onPickVideo_def supported_sample)

lemma picked_valid:
  "fst (validateInputs_u
     (onPickSubtitle (Some sample_subtitles) (onPickVideo (Some sample_video) st)))"
  by (simp add: validateInputs_u_fst picked_fields supported_sample)

lemma ready_state_u_fields:
  "videoFile_u ready_state_u = Some sample_video"
  "subtitleFile_u ready_state_u = Some sample_subtitles"
  "requests_u ready_state_u = []"
  "statusLog_u ready_state_u = [''idle'']"
  "backendEnvUrl ready_state_u = None"
  "fst (validateInputs_u ready_state_u)"
  unfolding ready_state_u_def
  by (simp_all add: picked_fields picked_valid) (simp_all add: initial_state_u_def)

lemma env_fields:
  "fetched env_ok = Fulfilled sample_ok" "\<not> cancel_fetch env_ok" "\<not> cancel_body env_ok"
  "fetched env_500 = Fulfilled sample_500" "\<not> cancel_fetch env_500" "\<not> cancel_body env_500"
  "cancel_fetch env_cancel"
  "resp_ok sample_ok" "resp_blob sample_ok = Fulfilled ''srt-out''"
  "resp_json sample_ok = Fulfilled (CuesJson sample_cues)"
  "\<not> resp_ok sample_500" "resp_text sample_500 = Fulfilled ''no video stream''"
  "resp_status sample_500 = 500"
  by (simp_all add: env_ok_def env_500_def env_cancel_def sample_ok_def sample_500_def)

subsection \<open>Cues are stored and rendered as received\<close>



subsection \<open>Requests\<close>

text \<open>
  Claim C2. Every request the program issues is a POST whose body is a form-data object
  holding the selected video file under \<open>video\<close> and the selected subtitle file under
  \<open>subtitles_file\<close> (preview variant) or \<open>subtitle\<close> (upload-form variant), and whose
  target is the backend base URL followed by \<open>/reposition/subtitles\<close>,
  \<open>/reposition/subtitles/download\<close> or \<open>/reposition\<close>. This holds for the requests of
  every single action from every state, and so for all requests of every run from the
  initial state.
\<close>

theorem requests_are_multipart_posts:
  "(\<forall>r \<in> set (issued st (step st a)).
      req_method r = ''POST'' \<and>
      (\<exists>v s rest. videoFile st = Some v \<and> subtitleFile st = Some s \<and>
         req_body r =
           FormDataBody ((''video'', FileValue v) # (''subtitles_file'', FileValue s) # rest)) \<and>
      (req_url r = backendBaseUrl st @ ''/reposition/subtitles'' \<or>
       req_url r = backendBaseUrl st @ ''/reposition/subtitles/download'')) \<and>
   (\<forall>r \<in> set (issued_u su (step_u su b)).
      req_method r = ''POST'' \<and>
      (\<exists>v s. videoFile_u su = Some v \<and> subtitleFile_u su = Some s \<and>
         req_body r = FormDataBody [(''video'', FileValue v), (''subtitle'', FileValue s)]) \<and>
      req_url r = getBackendUrl (backendEnvUrl su) @ ''/reposition'') \<and>
   (\<forall>r \<in> set (requests (run (initial_state envUrl loc) acts)).
      req_method r = ''POST'' \<and>
      (\<exists>v s rest. req_body r =
         FormDataBody ((''video'', FileValue v) # (''subtitles_file'', FileValue s) # rest)) \<and>
      (req_url r = backendBaseUrl (initial_state envUrl loc) @ ''/reposition/subtitles'' \<or>
       req_url r =
         backendBaseUrl (initial_state envUrl loc) @ ''/reposition/subtitles/download'')) \<and>
   (\<forall>r \<in> set (requests_u (run_u (initial_state_u envUrl) acts_u)).
      req_method r = ''POST'' \<and>
      (\<exists>v s. req_body r = FormDataBody [(''video'', FileValue v), (''subtitle'', FileValue s)]) \<and>
      req_url r = getBackendUrl envUrl @ ''/reposition'')"
proof (intro conjI)
  show "\<forall>r \<in> set (issued st (step st a)).
      req_method r = ''POST'' \<and>
      (\<exists>v s rest. videoFile st = Some v \<and> subtitleFile st = Some s \<and>
         req_body r =
           FormDataBody ((''video'', FileValue v) # (''subtitles_file'', FileValue s) # rest)) \<and>
      (req_url r = backendBaseUrl st @ ''/reposition/subtitles'' \<or>
       req_url r = backendBaseUrl st @ ''/reposition/subtitles/download'')"
    unfolding step_issued by (cases a) (auto simp add: form_file_def)
  show "\<forall>r \<in> set (issued_u su (step_u su b)).
      req_method r = ''POST'' \<and>
      (\<exists>v s. videoFile_u su = Some v \<and> subtitleFile_u su = Some s \<and>
         req_body r = FormDataBody [(''video'', FileValue v), (''subtitle'', FileValue s)]) \<and>
      req_url r = getBackendUrl (backendEnvUrl su) @ ''/reposition''"
    unfolding step_u_issued by (cases b) (auto simp add: form_file_def validateInputs_u_fst)
  have "requests (initial_state envUrl loc) = []" by (simp add: initial_state_def)
  then show "\<forall>r \<in> set (requests (run (initial_state envUrl loc) acts)).
      req_method r = ''POST'' \<and>
      (\<exists>v s rest. req_body r =
         FormDataBody ((''video'', FileValue v) # (''subtitles_file'', FileValue s) # rest)) \<and>
      (req_url r = backendBaseUrl (initial_state envUrl loc) @ ''/reposition/subtitles'' \<or>
       req_url r =
         backendBaseUrl (initial_state envUrl loc) @ ''/reposition/subtitles/download'')"
    using run_requests [of "initial_state envUrl loc" acts] by simp
  have "requests_u (initial_state_u envUrl) = []"
    and "backendEnvUrl (initial_state_u envUrl) = envUrl"
    by (simp_all add: initial_state_u_def)
  then show "\<forall>r \<in> set (requests_u (run_u (initial_state_u envUrl) acts_u)).
      req_method r = ''POST'' \<and>
      (\<exists>v s. req_body r = FormDataBody [(''video'', FileValue v), (''subtitle'', FileValue s)]) \<and>
      req_url r = getBackendUrl envUrl @ ''/reposition''"
    using run_u_requests [of "initial_state_u envUrl" acts_u] by simp
qed

theorem requests_are_multipart_posts_witness:
  "issued ready_state (step ready_state (DownloadRepositionedSRT (Fulfilled sample_ok))) =
     [\<lparr>req_url = ''http://localhost:3001/reposition/subtitles/download'', req_method = ''POST'',
       req_body = FormDataBody [(''video'', FileValue sample_video),
                                (''subtitles_file'', FileValue sample_subtitles),
                                (''include_position_hint'', StringValue ''true'')],
       req_signal = False\<rparr>] \<and>
   list_all (\<lambda>r. req_method r = ''POST'' \<and>
       (\<exists>v s rest. videoFile ready_state = Some v \<and> subtitleFile ready_state = Some s \<and>
          req_body r =
            FormDataBody ((''video'', FileValue v) # (''subtitles_file'', FileValue s) # rest)) \<and>
       (req_url r = backendBaseUrl ready_state @ ''/reposition/subtitles'' \<or>
        req_url r = backendBaseUrl ready_state @ ''/reposition/subtitles/download''))
     (issued ready_state (step ready_state (DownloadRepositionedSRT (Fulfilled sample_ok)))) \<and>
   issued_u ready_state_u (step_u ready_state_u (HandleSubmit env_ok)) =
     [\<lparr>req_url = ''http://subtitle_backend:3001/reposition'', req_method = ''POST'',
       req_body = FormDataBody [(''video'', FileValue sample_video),
                                (''subtitle'', FileValue sample_subtitles)],
       req_signal = True\<rparr>] \<and>
   list_all (\<lambda>r. req_method r = ''POST'' \<and>
       (\<exists>v s. videoFile_u ready_state_u = Some v \<and> subtitleFile_u ready_state_u = Some s \<and>
          req_body r = FormDataBody [(''video'', FileValue v), (''subtitle'', FileValue s)]) \<and>
       req_url r = getBackendUrl (backendEnvUrl ready_state_u) @ ''/reposition'')
     (issued_u ready_state_u (step_u ready_state_u (HandleSubmit env_ok)))"
proof -
  note t = requests_are_multipart_posts
    [of ready_state "DownloadRepositionedSRT (Fulfilled sample_ok)"
        ready_state_u "HandleSubmit env_ok" None None "[]" "[]"]
  have a: "issued ready_state (step ready_state (DownloadRepositionedSRT (Fulfilled sample_ok))) =
     [\<lparr>req_url = ''http://localhost:3001/reposition/subtitles/download'', req_method = ''POST'',
       req_body = FormDataBody [(''video'', FileValue sample_video),
                                (''subtitles_file'', FileValue sample_subtitles),
                                (''include_position_hint'', StringValue ''true'')],
       req_signal = False\<rparr>]"
    by (subst step_issued) (simp add: ready_state_fields form_file_def)
  have b: "issued_u ready_state_u (step_u ready_state_u (HandleSubmit env_ok)) =
     [\<lparr>req_url = ''http://subtitle_backend:3001/reposition'', req_method = ''POST'',
       req_body = FormDataBody [(''video'', FileValue sample_video),
                                (''subtitle'', FileValue sample_subtitles)],
       req_signal = True\<rparr>]"
    by (subst step_u_issued) (simp add: ready_state_u_fields form_file_def getBackendUrl_def)
  from t have c: "list_all (\<lambda>r. req_method r = ''POST'' \<and>
       (\<exists>v s rest. videoFile ready_state = Some v \<and> subtitleFile ready_state = Some s \<and>
          req_body r =
            FormDataBody ((''video'', FileValue v) # (''subtitles_file'', FileValue s) # rest)) \<and>
       (req_url r = backendBaseUrl ready_state @ ''/reposition/subtitles'' \<or>
        req_url r = backendBaseUrl ready_state @ ''/reposition/subtitles/download''))
     (issued ready_state (step ready_state (DownloadRepositionedSRT (Fulfilled sample_ok))))"
    unfolding list_all_iff by (elim conjE)
  from t have d: "list_all (\<lambda>r. req_method r = ''POST'' \<and>
       (\<exists>v s. videoFile_u ready_state_u = Some v \<and> subtitleFile_u ready_state_u = Some s \<and>
          req_body r = FormDataBody [(''video'', FileValue v), (''subtitle'', FileValue s)]) \<and>
       req_url r = getBackendUrl (backendEnvUrl ready_state_u) @ ''/reposition'')
     (issued_u ready_state_u (step_u ready_state_u (HandleSubmit env_ok)))"
    unfolding list_all_iff by (elim conjE)
  from a c b d show ?thesis by (intro conjI)
qed

subsection \<open>Missing inputs and backend errors\<close>

text \<open>
  Claim C3. In each of the three actions (\<open>callRepositionAPI\<close>,
  \<open>downloadRepositionedSRT\<close>, \<open>handleSubmit\<close>): if no video file is selected, or a
  video but no subtitle file, the action issues no request and leaves an error message
  that names the missing input (the upload-form variant also sets the status to
  \<open>error\<close>); whenever an action does issue a request, both files are selected.
\<close>

theorem missing_input_blocks_request:
  "(videoFile st = None \<longrightarrow>
      requests (callRepositionAPI st f) = requests st \<and>
      error (callRepositionAPI st f) = ''Please select a video file.'' \<and>
      requests (downloadRepositionedSRT st f) = requests st \<and>
      error (downloadRepositionedSRT st f) = ''Please select a video file.'') \<and>
   (videoFile st \<noteq> None \<and> subtitleFile st = None \<longrightarrow>
      requests (callRepositionAPI st f) = requests st \<and>
      error (callRepositionAPI st f) = ''Please select a subtitle file (SRT).'' \<and>
      requests (downloadRepositionedSRT st f) = requests st \<and>
      error (downloadRepositionedSRT st f) = ''Please select a subtitle file (SRT).'') \<and>
   (requests (callRepositionAPI st f) \<noteq> requests st \<or>
    requests (downloadRepositionedSRT st f) \<noteq> requests st \<longrightarrow>
      videoFile st \<noteq> None \<and> subtitleFile st \<noteq> None) \<and>
   (videoFile_u su = None \<longrightarrow>
      requests_u (handleSubmit su env) = requests_u su \<and>
      status_u (handleSubmit su env) = ''error'' \<and>
      message_u (handleSubmit su env) = ''Please select a video file.'') \<and>
   (videoFile_u su \<noteq> None \<and> subtitleFile_u su = None \<longrightarrow>
      requests_u (handleSubmit su env) = requests_u su \<and>
      status_u (handleSubmit su env) = ''error'' \<and>
      message_u (handleSubmit su env) =
        ''Please select a subtitle file (.srt, .ass, .ssa, .vtt).'') \<and>
   (requests_u (handleSubmit su env) \<noteq> requests_u su \<longrightarrow>
      videoFile_u su \<noteq> None \<and> subtitleFile_u su \<noteq> None)"
proof -
  have a1: "videoFile st = None \<Longrightarrow>
      requests (callRepositionAPI st f) = requests st \<and>
      error (callRepositionAPI st f) = ''Please select a video file.'' \<and>
      requests (downloadRepositionedSRT st f) = requests st \<and>
      error (downloadRepositionedSRT st f) = ''Please select a video file.''"
    by (simp add: callRepositionAPI_blocked downloadRepositionedSRT_blocked setError_def)
  have a2: "videoFile st \<noteq> None \<Longrightarrow> subtitleFile st = None \<Longrightarrow>
      requests (callRepositionAPI st f) = requests st \<and>
      error (callRepositionAPI st f) = ''Please select a subtitle file (SRT).'' \<and>
      requests (downloadRepositionedSRT st f) = requests st \<and>
      error (downloadRepositionedSRT st f) = ''Please select a subtitle file (SRT).''"
    by (simp add: callRepositionAPI_blocked downloadRepositionedSRT_blocked setError_def)
  have a3: "requests (callRepositionAPI st f) \<noteq> requests st \<or>
      requests (downloadRepositionedSRT st f) \<noteq> requests st \<Longrightarrow>
      videoFile st \<noteq> None \<and> subtitleFile st \<noteq> None"
    using a1 a2 by blast
  have b1: "videoFile_u su = None \<Longrightarrow>
      requests_u (handleSubmit su env) = requests_u su \<and>
      status_u (handleSubmit su env) = ''error'' \<and>
      message_u (handleSubmit su env) = ''Please select a video file.''"
    by (simp add: handleSubmit_def validateInputs_u_def upload_setters)
  have b2: "videoFile_u su \<noteq> None \<Longrightarrow> subtitleFile_u su = None \<Longrightarrow>
      requests_u (handleSubmit su env) = requests_u su \<and>
      status_u (handleSubmit su env) = ''error'' \<and>
      message_u (handleSubmit su env) =
        ''Please select a subtitle file (.srt, .ass, .ssa, .vtt).''"
    by (auto simp add: handleSubmit_def validateInputs_u_def upload_setters
        SUPPORTED_SUB_EXTENSIONS_def)
  have b3: "requests_u (handleSubmit su env) \<noteq> requests_u su \<Longrightarrow>
      videoFile_u su \<noteq> None \<and> subtitleFile_u su \<noteq> None"
    using b1 b2 by blast
  from a1 a2 a3 b1 b2 b3 show ?thesis by blast
qed

theorem missing_input_blocks_request_witness:
  "videoFile (initial_state None None) = None \<and>
   error (callRepositionAPI (initial_state None None) (Fulfilled sample_ok)) =
     ''Please select a video file.'' \<and>
   requests (callRepositionAPI (initial_state None None) (Fulfilled sample_ok)) = [] \<and>
   videoFile_u (initial_state_u None) = None \<and>
   message_u (handleSubmit (initial_state_u None) env_ok) = ''Please select a video file.'' \<and>
   requests_u (handleSubmit (initial_state_u None) env_ok) = [] \<and>
   subtitleFile (handleVideoChange (Some sample_video) (initial_state None None)) = None \<and>
   error (downloadRepositionedSRT (handleVideoChange (Some sample_video) (initial_state None None))
            (Fulfilled sample_ok)) = ''Please select a subtitle file (SRT).'' \<and>
   subtitleFile_u (onPickVideo (Some sample_video) (initial_state_u None)) = None \<and>
   message_u (handleSubmit (onPickVideo (Some sample_video) (initial_state_u None)) env_ok) =
     ''Please select a subtitle file (.srt, .ass, .ssa, .vtt).'' \<and>
   requests (callRepositionAPI ready_state (Fulfilled sample_ok)) \<noteq> requests ready_state \<and>
   videoFile ready_state \<noteq> None \<and> subtitleFile ready_state \<noteq> None \<and>
   requests_u (handleSubmit ready_state_u env_ok) \<noteq> requests_u ready_state_u \<and>
   videoFile_u ready_state_u \<noteq> None \<and> subtitleFile_u ready_state_u \<noteq> None"
proof -
  have i: "videoFile (initial_state None None) = None"
    "requests (initial_state None None) = []"
    "videoFile_u (initial_state_u None) = None"
    "requests_u (initial_state_u None) = []"
    by (simp_all add: initial_state_def initial_state_u_def)
  have j: "videoFile (handleVideoChange (Some sample_video) (initial_state None None)) \<noteq> None"
    "subtitleFile (handleVideoChange (Some sample_video) (initial_state None None)) = None"
    "videoFile_u (onPickVideo (Some sample_video) (initial_state_u None)) \<noteq> None"
    "subtitleFile_u (onPickVideo (Some sample_video) (initial_state_u None)) = None"
    by (simp_all add: handleVideoChange_def onPickVideo_def initial_state_def
        initial_state_u_def)
  have k: "requests (callRepositionAPI ready_state (Fulfilled sample_ok)) \<noteq> requests ready_state"
    "requests_u (handleSubmit ready_state_u env_ok) \<noteq> requests_u ready_state_u"
    by (simp_all add: callRepositionAPI_requests handleSubmit_requests ready_state_fields
        ready_state_u_fields)
  from missing_input_blocks_request
         [of "initial_state None None" "Fulfilled sample_ok" "initial_state_u None" env_ok]
       missing_input_blocks_request
         [of "handleVideoChange (Some sample_video) (initial_state None None)"
             "Fulfilled sample_ok" "onPickVideo (Some sample_video) (initial_state_u None)"
             env_ok]
       missing_input_blocks_request [of ready_state "Fulfilled sample_ok" ready_state_u env_ok]
       i j k
  show ?thesis by simp
qed

text \<open>
  Claim C4. When the backend answers with a non-OK status, the status becomes the error
  state and the action has issued exactly one request: nothing is retried. The body text,
  when it can be read, is part of the error string shown: the preview variant shows
  \<open>Backend error (status): body\<close>, the upload-form variant shows the body itself (and
  \<open>Request failed with status ...\<close> when the body is empty).
\<close>

theorem non_ok_response_surfaced:
  assumes "\<not> resp_ok r"
  shows "(videoFile st \<noteq> None \<and> subtitleFile st \<noteq> None \<and> backendBaseUrl st \<noteq> [] \<longrightarrow>
            status (callRepositionAPI st (Fulfilled r)) = ''Error'' \<and>
            length (requests (callRepositionAPI st (Fulfilled r))) = length (requests st) + 1 \<and>
            status (downloadRepositionedSRT st (Fulfilled r)) = ''Error'' \<and>
            length (requests (downloadRepositionedSRT st (Fulfilled r))) =
              length (requests st) + 1 \<and>
            (resp_text r = Fulfilled body \<longrightarrow>
               error (callRepositionAPI st (Fulfilled r)) =
                 ''Backend error ('' @ toString_nat (resp_status r) @ ''): '' @ body \<and>
               error (downloadRepositionedSRT st (Fulfilled r)) =
                 ''Backend error ('' @ toString_nat (resp_status r) @ ''): '' @ body)) \<and>
         (fst (validateInputs_u su) \<and> fetched env = Fulfilled r \<and> \<not> cancel_fetch env \<longrightarrow>
            status_u (handleSubmit su env) = ''error'' \<and>
            length (requests_u (handleSubmit su env)) = length (requests_u su) + 1 \<and>
            (resp_text r = Fulfilled body \<and> \<not> cancel_body env \<longrightarrow>
               message_u (handleSubmit su env) =
                 (if body \<noteq> [] then body
                  else ''Request failed with status '' @ toString_nat (resp_status r))))"
proof (intro conjI impI)
  assume u: "videoFile st \<noteq> None \<and> subtitleFile st \<noteq> None \<and> backendBaseUrl st \<noteq> []"
  show "status (callRepositionAPI st (Fulfilled r)) = ''Error''"
    unfolding callRepositionAPI_unblocked [OF u] using assms
    by (cases "resp_text r") (simp_all add: api_eval)
  show "length (requests (callRepositionAPI st (Fulfilled r))) = length (requests st) + 1"
    using u by (simp add: callRepositionAPI_requests)
  show "status (downloadRepositionedSRT st (Fulfilled r)) = ''Error''"
    unfolding downloadRepositionedSRT_unblocked [OF u] using assms
    by (cases "resp_text r") (simp_all add: api_eval)
  show "length (requests (downloadRepositionedSRT st (Fulfilled r))) = length (requests st) + 1"
    using u by (simp add: downloadRepositionedSRT_requests)
  assume t: "resp_text r = Fulfilled body"
  show "error (callRepositionAPI st (Fulfilled r)) =
          ''Backend error ('' @ toString_nat (resp_status r) @ ''): '' @ body"
    unfolding callRepositionAPI_unblocked [OF u] using assms t
    by (simp add: api_eval new_Error_def)
  show "error (downloadRepositionedSRT st (Fulfilled r)) =
          ''Backend error ('' @ toString_nat (resp_status r) @ ''): '' @ body"
    unfolding downloadRepositionedSRT_unblocked [OF u] using assms t
    by (simp add: api_eval new_Error_def)
next
  assume h: "fst (validateInputs_u su) \<and> fetched env = Fulfilled r \<and> \<not> cancel_fetch env"
  then have v: "fst (validateInputs_u su)" and f: "fetched env = Fulfilled r"
    and c: "\<not> cancel_fetch env"
    by simp_all
  show "status_u (handleSubmit su env) = ''error''"
    by (rule handleSubmit_non_ok(2) [OF v f assms c])
  show "length (requests_u (handleSubmit su env)) = length (requests_u su) + 1"
    using v by (simp add: handleSubmit_requests)
  assume "resp_text r = Fulfilled body \<and> \<not> cancel_body env"
  then show "message_u (handleSubmit su env) =
          (if body \<noteq> [] then body
           else ''Request failed with status '' @ toString_nat (resp_status r))"
    using handleSubmit_non_ok(1) [OF v f assms c]
    by (simp add: safeReadText_def)
qed

theorem non_ok_response_surfaced_witness:
  "\<not> resp_ok sample_500 \<and> resp_text sample_500 = Fulfilled ''no video stream'' \<and>
   error (callRepositionAPI ready_state (Fulfilled sample_500)) =
     ''Backend error (500): no video stream'' \<and>
   status (callRepositionAPI ready_state (Fulfilled sample_500)) = ''Error'' \<and>
   length (requests (callRepositionAPI ready_state (Fulfilled sample_500))) = 1 \<and>
   message_u (handleSubmit ready_state_u env_500) = ''no video stream'' \<and>
   status_u (handleSubmit ready_state_u env_500) = ''error'' \<and>
   length (requests_u (handleSubmit ready_state_u env_500)) = 1"
proof -
  have n: "toString_nat 500 = ''500''" by code_simp
  from non_ok_response_surfaced [OF env_fields(11), of ready_state "''no video stream''"
      ready_state_u env_500]
  show ?thesis
    by (simp add: ready_state_fields ready_state_u_fields env_fields n)
qed

subsection \<open>The values of the status\<close>

text \<open>
  A run of the upload-form variant that assigns every one of its status values, and one of
  the preview variant.
\<close>

lemma upload_sample_run:
  "statusLog_u (run_u (initial_state_u e)
     [OnPickVideo (Some sample_video), OnPickSubtitle (Some sample_subtitles),
      HandleSubmit env_ok, HandleSubmit env_500]) =
   [''idle'', ''validating'', ''uploading'', ''processing'', ''success'',
    ''validating'', ''uploading'', ''error'']"
proof -
  let ?s2 = "onPickSubtitle (Some sample_subtitles)
               (onPickVideo (Some sample_video) (initial_state_u e))"
  let ?s3 = "handleSubmit ?s2 env_ok"
  have l2: "statusLog_u ?s2 = [''idle'']"
    by (simp add: picked_fields initial_state_u_def)
  have v2: "fst (validateInputs_u ?s2)" by (rule picked_valid)
  have l3: "statusLog_u ?s3 = [''idle'', ''validating'', ''uploading'', ''processing'', ''success'']"
    using handleSubmit_success(4)
      [OF v2 env_fields(1) env_fields(8) env_fields(9) env_fields(2) env_fields(3)]
    by (simp add: l2)
  have v3: "fst (validateInputs_u ?s3)"
    using v2 by (simp add: validateInputs_u_fst handleSubmit_files)
  have "statusLog_u (handleSubmit ?s3 env_500) =
      statusLog_u ?s3 @ [''validating'', ''uploading'', ''error'']"
    by (rule handleSubmit_non_ok(3) [OF v3 env_fields(4) env_fields(11) env_fields(5)])
  then show ?thesis by (simp add: run_u_def l3)
qed

lemma preview_sample_run:
  assumes "backendBaseUrl (initial_state e l) \<noteq> []"
  shows "statusLog (run (initial_state e l)
     [HandleVideoChange (Some sample_video), HandleSubChange (Some sample_subtitles),
      CallRepositionAPI (Fulfilled sample_ok), DownloadRepositionedSRT (Fulfilled sample_ok),
      CallRepositionAPI (Fulfilled sample_500)]) =
   [''Idle'', ''Uploading...'', ''Processing...'', ''Done'', ''Requesting download...'',
    ''Downloaded'', ''Uploading...'', ''Processing...'', ''Error'']"
proof -
  let ?s2 = "handleSubChange (Some sample_subtitles)
               (handleVideoChange (Some sample_video) (initial_state e l))"
  let ?s3 = "callRepositionAPI ?s2 (Fulfilled sample_ok)"
  let ?s4 = "downloadRepositionedSRT ?s3 (Fulfilled sample_ok)"
  have u2: "videoFile ?s2 \<noteq> None \<and> subtitleFile ?s2 \<noteq> None \<and> backendBaseUrl ?s2 \<noteq> []"
    using assms by (simp add: handleSubChange_def handleVideoChange_def)
  have l2: "statusLog ?s2 = [''Idle'']"
    by (simp add: handleSubChange_def handleVideoChange_def initial_state_def)
  have u3: "videoFile ?s3 \<noteq> None \<and> subtitleFile ?s3 \<noteq> None \<and> backendBaseUrl ?s3 \<noteq> []"
    using u2 callRepositionAPI_frame [of ?s2 "Fulfilled sample_ok"] by simp
  have u4: "videoFile ?s4 \<noteq> None \<and> subtitleFile ?s4 \<noteq> None \<and> backendBaseUrl ?s4 \<noteq> []"
    using u3 downloadRepositionedSRT_frame [of ?s3 "Fulfilled sample_ok"] by simp
  have l3: "statusLog ?s3 = [''Idle'', ''Uploading...'', ''Processing...'', ''Done'']"
    using u2 by (simp add: callRepositionAPI_statusLog l2 env_fields)
  have l4: "statusLog ?s4 = statusLog ?s3 @ [''Requesting download...'', ''Downloaded'']"
    using u3 by (simp add: downloadRepositionedSRT_statusLog env_fields)
  have l5: "statusLog (callRepositionAPI ?s4 (Fulfilled sample_500)) =
      statusLog ?s4 @ [''Uploading...'', ''Processing...'', ''Error'']"
    using u4 by (simp add: callRepositionAPI_statusLog env_fields)
  show ?thesis by (simp add: run_def l5 l4 l3)
qed

lemma status_lists_distinct:
  "distinct upload_statuses" "length upload_statuses = 6"
  "distinct preview_statuses" "length preview_statuses = 7"
  by (simp_all add: upload_statuses_def preview_statuses_def)

text \<open>
  Claim C5, as the code has it. The status is not a five-valued label. In the upload-form
  variant the values assigned to it over all runs are exactly the six of
  \<open>upload_statuses\<close> (idle, validating, uploading, processing, success, error); in the
  preview variant they are among the seven of \<open>preview_statuses\<close> (Idle, Uploading...,
  Processing..., Done, Error, Requesting download..., Downloaded), and exactly those
  seven when a backend URL is configured.
\<close>

theorem status_values:
  "{s. \<exists>acts. s \<in> set (statusLog_u (run_u (initial_state_u envUrl) acts))} =
     set upload_statuses \<and>
   distinct upload_statuses \<and> length upload_statuses = 6 \<and>
   {s. \<exists>acts. s \<in> set (statusLog (run (initial_state envUrl loc) acts))} \<subseteq>
     set preview_statuses \<and>
   (backendBaseUrl (initial_state envUrl loc) \<noteq> [] \<longrightarrow>
      {s. \<exists>acts. s \<in> set (statusLog (run (initial_state envUrl loc) acts))} =
        set preview_statuses) \<and>
   distinct preview_statuses \<and> length preview_statuses = 7"
proof -
  have iu: "set (statusLog_u (initial_state_u envUrl)) \<subseteq> set upload_statuses"
    by (simp add: initial_state_u_def upload_statuses_def)
  have ip: "set (statusLog (initial_state envUrl loc)) \<subseteq> set preview_statuses"
    by (simp add: initial_state_def preview_statuses_def)
  have u1: "{s. \<exists>acts. s \<in> set (statusLog_u (run_u (initial_state_u envUrl) acts))} \<subseteq>
      set upload_statuses"
    using run_u_statusLog [of "initial_state_u envUrl"] iu by blast
  have "set (statusLog_u (run_u (initial_state_u envUrl)
     [OnPickVideo (Some sample_video), OnPickSubtitle (Some sample_subtitles),
      HandleSubmit env_ok, HandleSubmit env_500])) = set upload_statuses"
    unfolding upload_sample_run upload_statuses_def by auto
  then have u2: "set upload_statuses \<subseteq>
      {s. \<exists>acts. s \<in> set (statusLog_u (run_u (initial_state_u envUrl) acts))}"
    by blast
  have p1: "{s. \<exists>acts. s \<in> set (statusLog (run (initial_state envUrl loc) acts))} \<subseteq>
      set preview_statuses"
    using run_logs [of "initial_state envUrl loc"] ip by blast
  have p2: "set preview_statuses \<subseteq>
      {s. \<exists>acts. s \<in> set (statusLog (run (initial_state envUrl loc) acts))}"
    if b: "backendBaseUrl (initial_state envUrl loc) \<noteq> []"
  proof -
    have "set (statusLog (run (initial_state envUrl loc)
     [HandleVideoChange (Some sample_video), HandleSubChange (Some sample_subtitles),
      CallRepositionAPI (Fulfilled sample_ok), DownloadRepositionedSRT (Fulfilled sample_ok),
      CallRepositionAPI (Fulfilled sample_500)])) = set preview_statuses"
      unfolding preview_sample_run [OF b] preview_statuses_def by auto
    then show ?thesis by blast
  qed
  from u1 u2 p1 p2 status_lists_distinct show ?thesis by blast
qed

theorem status_values_witness:
  "backendBaseUrl (initial_state None (Some (''http:'', ''localhost''))) \<noteq> [] \<and>
   {s. \<exists>acts. s \<in> set (statusLog
        (run (initial_state None (Some (''http:'', ''localhost''))) acts))} =
     set preview_statuses \<and>
   length preview_statuses = 7"
proof -
  have b: "backendBaseUrl (initial_state None (Some (''http:'', ''localhost''))) \<noteq> []"
    by (simp add: initial_state_def locationBaseUrl_def)
  from status_values [of None "Some (''http:'', ''localhost'')"] b show ?thesis by blast
qed

theorem five_statuses_counterexample:
  "statusLog_u (run_u (initial_state_u None)
     [OnPickVideo (Some sample_video), OnPickSubtitle (Some sample_subtitles),
      HandleSubmit env_ok, HandleSubmit env_500]) =
   [''idle'', ''validating'', ''uploading'', ''processing'', ''success'',
    ''validating'', ''uploading'', ''error''] \<and>
   card (set (statusLog_u (run_u (initial_state_u None)
     [OnPickVideo (Some sample_video), OnPickSubtitle (Some sample_subtitles),
      HandleSubmit env_ok, HandleSubmit env_500]))) = 6 \<and>
   statusLog (run (initial_state None (Some (''http:'', ''localhost'')))
     [HandleVideoChange (Some sample_video), HandleSubChange (Some sample_subtitles),
      CallRepositionAPI (Fulfilled sample_ok), DownloadRepositionedSRT (Fulfilled sample_ok),
      CallRepositionAPI (Fulfilled sample_500)]) =
   [''Idle'', ''Uploading...'', ''Processing...'', ''Done'', ''Requesting download...'',
    ''Downloaded'', ''Uploading...'', ''Processing...'', ''Error''] \<and>
   card (set (statusLog (run (initial_state None (Some (''http:'', ''localhost'')))
     [HandleVideoChange (Some sample_video), HandleSubChange (Some sample_subtitles),
      CallRepositionAPI (Fulfilled sample_ok), DownloadRepositionedSRT (Fulfilled sample_ok),
      CallRepositionAPI (Fulfilled sample_500)]))) = 7"
proof -
  have b: "backendBaseUrl (initial_state None (Some (''http:'', ''localhost''))) \<noteq> []"
    by (simp add: initial_state_def locationBaseUrl_def)
  have "set [''idle'', ''validating'', ''uploading'', ''processing'', ''success'',
      ''validating'', ''uploading'', ''error''] = set upload_statuses"
    unfolding upload_statuses_def by auto
  then have c: "card (set [''idle'', ''validating'', ''uploading'', ''processing'', ''success'',
      ''validating'', ''uploading'', ''error'']) = 6"
    using distinct_card [OF status_lists_distinct(1)] status_lists_distinct(2) by simp
  have "set [''Idle'', ''Uploading...'', ''Processing...'', ''Done'',
      ''Requesting download...'', ''Downloaded'', ''Uploading...'', ''Processing...'',
      ''Error''] = set preview_statuses"
    unfolding preview_statuses_def by auto
  then have d: "card (set [''Idle'', ''Uploading...'', ''Processing...'', ''Done'',
      ''Requesting download...'', ''Downloaded'', ''Uploading...'', ''Processing...'',
      ''Error'']) = 7"
    using distinct_card [OF status_lists_distinct(3)] status_lists_distinct(4) by simp
  note u = upload_sample_run [of None]
  note p = preview_sample_run [OF b]
  have cu: "card (set (statusLog_u (run_u (initial_state_u None)
     [OnPickVideo (Some sample_video), OnPickSubtitle (Some sample_subtitles),
      HandleSubmit env_ok, HandleSubmit env_500]))) = 6"
    by (simp only: u c)
  have cp: "card (set (statusLog (run (initial_state None (Some (''http:'', ''localhost'')))
     [HandleVideoChange (Some sample_video), HandleSubChange (Some sample_subtitles),
      CallRepositionAPI (Fulfilled sample_ok), DownloadRepositionedSRT (Fulfilled sample_ok),
      CallRepositionAPI (Fulfilled sample_500)]))) = 7"
    by (simp only: p d)
  from u cu p cp show ?thesis by (intro conjI)
qed

subsection \<open>Cancelling a submission\<close>







subsection \<open>The progress does not depend on the files\<close>








end
